theory Spec2Isabelle
  imports Main
begin

section \<open>A small shell in C: job control and execution core\<close>

text \<open>
  A shallow embedding of \<^verbatim>\<open>main.c\<close>. One process is modelled at a time: its memory
  (the one \<^verbatim>\<open>struct shell_info\<close> object, which every function reaches through the
  pointer \<^verbatim>\<open>info\<close>, and the global \<^verbatim>\<open>stop_background\<close>), the part of the kernel state
  the code changes (descriptor table, signal dispositions), and the sequence of library
  and system calls it has made. What the operating system answers (the result of
  \<^verbatim>\<open>fork\<close>, \<^verbatim>\<open>open\<close>, \<^verbatim>\<open>dup2\<close>, \<^verbatim>\<open>execvp\<close>, \<^verbatim>\<open>waitpid\<close>, \<^verbatim>\<open>chdir\<close>) is a parameter.
\<close>

subsection \<open>Data\<close>

text \<open>\<^verbatim>\<open>struct shell_info\<close>. The two 256-byte arrays hold C strings.\<close>

record shell_info =
  background :: int
  exit_status :: int
  output_redirect :: int
  input_redirect :: int
  output_filename :: string
  input_filename :: string

datatype signal = SIGINT | SIGTSTP

datatype handler = SIG_DFL | SIG_IGN | Handler_handle_SIG

datatype sa_flag = SA_RESTART | SA_RESETHAND

text \<open>The two ways the code opens a file (\<^verbatim>\<open>O_RDWR\<close> is for descriptors the process
  inherits), and an open file description.\<close>

datatype oflag = O_RDONLY | O_WRONLY_CREAT_TRUNC | O_RDWR

type_synonym ofile = "string \<times> oflag"

datatype wait_options = NoOptions | WNOHANG

text \<open>What a call of \<^verbatim>\<open>waitpid\<close> answers: a child's pid with the status it stored,
  0 (with \<^verbatim>\<open>WNOHANG\<close>: no child has changed state), or -1.\<close>

datatype wait_result = Reaped int int | NotReady | WaitError

fun wait_ret :: "wait_result \<Rightarrow> int" where
  "wait_ret (Reaped pid st) = pid"
| "wait_ret NotReady = 0"
| "wait_ret WaitError = - 1"

fun wait_store :: "wait_result \<Rightarrow> int \<Rightarrow> int" where
  "wait_store (Reaped pid st) old = st"
| "wait_store NotReady old = old"
| "wait_store WaitError old = old"

text \<open>The calls a process makes, in order.\<close>

datatype event =
    Printf string
  | Fflush
  | Perror string
  | Write nat string
  | Fork
  | Waitpid int wait_options
  | Sigaction signal handler sa_flag
  | Open string oflag
  | Dup2 nat nat
  | Close nat
  | Chdir "string option"
  | Execvp "string option" "string list"

record proc =
  info :: shell_info
  stop_background :: int
  fdtab :: "nat \<Rightarrow> ofile option"
  sigdisp :: "signal \<Rightarrow> handler \<times> sa_flag"
  trace :: "event list"

text \<open>The answers of the operating system to the process that runs, and the C library's
  platform macros (\<^verbatim>\<open>WIFEXITED\<close>, \<^verbatim>\<open>WEXITSTATUS\<close>, \<^verbatim>\<open>WTERMSIG\<close> come from \<^verbatim>\<open>sys/wait.h\<close>).
  \<^verbatim>\<open>os_getpid\<close> is the pid of that process, \<^verbatim>\<open>os_fork\<close> what its call of \<^verbatim>\<open>fork\<close> returns
  (0 in the child), \<^verbatim>\<open>os_open_max\<close> the size of a descriptor table. \<^verbatim>\<open>os_reapable\<close> lists what the successive calls \<^verbatim>\<open>waitpid(-1, _, WNOHANG)\<close> of one
  reaping loop answer; after the list the call answers that no child is left.\<close>

record os =
  os_getpid :: int
  os_fork :: int
  os_open_ok :: "string \<Rightarrow> oflag \<Rightarrow> bool"
  os_open_max :: nat
  os_dup2_ok :: "nat \<Rightarrow> nat \<Rightarrow> bool"
  os_exec_ok :: "string \<Rightarrow> string list \<Rightarrow> bool"
  os_waitpid :: "int \<Rightarrow> wait_options \<Rightarrow> wait_result"
  os_reapable :: "wait_result list"
  os_home :: "string option"
  os_chdir_ok :: "string option \<Rightarrow> bool"
  WIFEXITED :: "int \<Rightarrow> bool"
  WEXITSTATUS :: "int \<Rightarrow> int"
  WTERMSIG :: "int \<Rightarrow> int"

text \<open>How a function ends: it returns, the process exits with a status, the process
  image is replaced by \<^verbatim>\<open>execvp\<close>, or the process faults.\<close>

datatype error = NullDeref | BufferOverflow

datatype 'a outcome =
    Return 'a proc
  | Exit int proc
  | Exec string "string list" proc
  | Fault error proc

definition emit :: "event list \<Rightarrow> proc \<Rightarrow> proc" where
  "emit es p = p\<lparr>trace := trace p @ es\<rparr>"

definition STDOUT_FILENO :: nat where
  "STDOUT_FILENO = 1"

subsection \<open>Printing integers (\<^verbatim>\<open>%d\<close>)\<close>

fun string_of_nat :: "nat \<Rightarrow> string" where
  "string_of_nat n =
     (if n < 10 then [''0123456789'' ! n]
      else string_of_nat (n div 10) @ [''0123456789'' ! (n mod 10)])"

declare string_of_nat.simps [simp del]

definition string_of_int :: "int \<Rightarrow> string" where
  "string_of_int i =
     (if i < 0 then ''-'' @ string_of_nat (nat (- i)) else string_of_nat (nat i))"

subsection \<open>Signal handlers\<close>

text \<open>\<^verbatim>\<open>handle_SIG\<close>: the handler of \<^verbatim>\<open>SIGTSTP\<close> in the interpreter. \<^verbatim>\<open>write\<close> sends the
  first 50, respectively 30, bytes of the message.\<close>

definition handle_SIG :: "signal \<Rightarrow> proc \<Rightarrow> proc" where
  "handle_SIG signo p =
     (if stop_background p = 0 then
        (emit [Write STDOUT_FILENO
                 (take 50 ''Entering foreground-only mode (& is now ignored) \<newline>''),
               Fflush] p)\<lparr>stop_background := 1\<rparr>
      else
        (emit [Write STDOUT_FILENO (take 30 ''Exiting foreground-only mode \<newline>''),
               Fflush] p)\<lparr>stop_background := 0\<rparr>)"

text \<open>\<^verbatim>\<open>sigaction\<close>; every call of the program blocks all signals in the handler
  (\<^verbatim>\<open>sigfillset\<close>), which is not recorded.\<close>

definition sigaction :: "signal \<Rightarrow> handler \<Rightarrow> sa_flag \<Rightarrow> proc \<Rightarrow> proc" where
  "sigaction sig h fl p =
     emit [Sigaction sig h fl] (p\<lparr>sigdisp := (sigdisp p)(sig := (h, fl))\<rparr>)"

definition custom_SIG :: "proc \<Rightarrow> proc" where
  "custom_SIG p = sigaction SIGINT SIG_IGN SA_RESTART p"

definition custom_SIGTSTP :: "proc \<Rightarrow> proc" where
  "custom_SIGTSTP p = sigaction SIGTSTP Handler_handle_SIG SA_RESTART p"

definition custom_IG :: "proc \<Rightarrow> proc" where
  "custom_IG p = sigaction SIGTSTP SIG_IGN SA_RESTART p"

text \<open>The flag as the launcher reads it (\<^verbatim>\<open>!stop_background\<close>).\<close>

definition foreground_only :: "proc \<Rightarrow> bool" where
  "foreground_only p = (stop_background p \<noteq> 0)"

subsection \<open>Status decoding and the built-in commands\<close>

definition my_status :: "os \<Rightarrow> int \<Rightarrow> proc \<Rightarrow> proc" where
  "my_status os st p =
     (if WIFEXITED os st then
        emit [Printf (''exit value '' @ string_of_int (WEXITSTATUS os st) @ '' \<newline>''),
              Fflush] p
      else
        emit [Printf (''terminated by signal '' @ string_of_int (WTERMSIG os st) @ '' \<newline>''),
              Fflush] p)"

text \<open>\<^verbatim>\<open>my_exit\<close> returns 0, the value that ends the loop of \<^verbatim>\<open>small_shell\<close>.\<close>

definition my_exit :: "proc \<Rightarrow> int \<times> proc" where
  "my_exit p = (0, emit [Printf ''exiting shell \<newline>'', Fflush] p)"

text \<open>\<^verbatim>\<open>my_cd\<close>: \<^verbatim>\<open>args[1]\<close> is null when the array holds one argument only.\<close>

definition chdir :: "os \<Rightarrow> string option \<Rightarrow> proc \<Rightarrow> int \<times> proc" where
  "chdir os path p = ((if os_chdir_ok os path then 0 else - 1), emit [Chdir path] p)"

definition my_cd :: "os \<Rightarrow> string list \<Rightarrow> proc \<Rightarrow> proc" where
  "my_cd os args p =
     (case tl args of
        [] \<Rightarrow>
          (case chdir os (os_home os) p of
             (r, p1) \<Rightarrow> if r \<noteq> 0 then emit [Printf ''chdir() failed''] p1 else p1)
      | a1 # _ \<Rightarrow>
          (case chdir os (Some a1) p of
             (r, p1) \<Rightarrow> if r \<noteq> 0 then emit [Printf ''chdir() failed''] p1 else p1))"

subsection \<open>Redirection\<close>

text \<open>\<^verbatim>\<open>open\<close> answers the lowest descriptor that is not in use, or fails (-1, here
  \<open>None\<close>); \<^verbatim>\<open>dup2\<close> makes the new descriptor refer to the old one's file, or fails.\<close>

definition lowest_free :: "os \<Rightarrow> proc \<Rightarrow> nat option" where
  "lowest_free os p = find (\<lambda>n. fdtab p n = None) [0..<os_open_max os]"

definition sys_open :: "os \<Rightarrow> string \<Rightarrow> oflag \<Rightarrow> proc \<Rightarrow> nat option \<times> proc" where
  "sys_open os path fl p =
     (let p1 = emit [Open path fl] p in
      if os_open_ok os path fl then
        (case lowest_free os p of
           None \<Rightarrow> (None, p1)
         | Some fd \<Rightarrow> (Some fd, p1\<lparr>fdtab := (fdtab p)(fd := Some (path, fl))\<rparr>))
      else (None, p1))"

definition sys_dup2 :: "os \<Rightarrow> nat \<Rightarrow> nat \<Rightarrow> proc \<Rightarrow> int \<times> proc" where
  "sys_dup2 os oldfd newfd p =
     (let p1 = emit [Dup2 oldfd newfd] p in
      if fdtab p oldfd \<noteq> None \<and> os_dup2_ok os oldfd newfd then
        (int newfd, p1\<lparr>fdtab := (fdtab p)(newfd := fdtab p oldfd)\<rparr>)
      else (- 1, p1))"

definition sys_close :: "nat \<Rightarrow> proc \<Rightarrow> proc" where
  "sys_close fd p = emit [Close fd] (p\<lparr>fdtab := (fdtab p)(fd := None)\<rparr>)"

definition output_redirection :: "os \<Rightarrow> string \<Rightarrow> proc \<Rightarrow> unit outcome" where
  "output_redirection os filename p =
     (case sys_open os filename O_WRONLY_CREAT_TRUNC p of
        (None, p1) \<Rightarrow> Exit 1 (emit [Perror ''Output file could not be opened \<newline>''] p1)
      | (Some fd, p1) \<Rightarrow>
          (case sys_dup2 os fd 1 p1 of
             (d, p2) \<Rightarrow>
               if d = - 1 then Exit 1 (emit [Perror ''Output file could not be redirected''] p2)
               else Return () (sys_close fd p2)))"

definition input_redirection :: "os \<Rightarrow> string \<Rightarrow> proc \<Rightarrow> unit outcome" where
  "input_redirection os filename p =
     (case sys_open os filename O_RDONLY p of
        (None, p1) \<Rightarrow> Exit 1 (emit [Perror ''Input file could not be opened \<newline>''] p1)
      | (Some fd, p1) \<Rightarrow>
          (case sys_dup2 os fd 0 p1 of
             (d, p2) \<Rightarrow>
               if d = - 1 then Exit 0 (emit [Perror ''Input file could not be redirected''] p2)
               else Return () (sys_close fd p2)))"

text \<open>Sequencing: what follows a call runs only when the call returns.\<close>

fun and_then :: "'a outcome \<Rightarrow> ('a \<Rightarrow> proc \<Rightarrow> 'b outcome) \<Rightarrow> 'b outcome" where
  "and_then (Return x p) f = f x p"
| "and_then (Exit n p) f = Exit n p"
| "and_then (Exec path argv p) f = Exec path argv p"
| "and_then (Fault e p) f = Fault e p"

subsection \<open>The process launcher\<close>

text \<open>\<^verbatim>\<open>execvp(args[0], args)\<close>: on success the image is replaced; when it returns, the
  child prints a diagnostic and exits with status 2.\<close>

definition execvp :: "os \<Rightarrow> string list \<Rightarrow> proc \<Rightarrow> 'a outcome" where
  "execvp os args p =
     (case args of
        [] \<Rightarrow> Exit 2 (emit [Execvp None args, Perror ''execvp''] p)
      | a0 # _ \<Rightarrow>
          if os_exec_ok os a0 args then Exec a0 args (emit [Execvp (Some a0) args] p)
          else Exit 2 (emit [Execvp (Some a0) args, Perror ''execvp''] p))"

text \<open>The child's branch of \<^verbatim>\<open>other_cmd\<close> (\<^verbatim>\<open>case 0\<close>).\<close>

definition other_cmd_child :: "os \<Rightarrow> string list \<Rightarrow> proc \<Rightarrow> unit outcome" where
  "other_cmd_child os args p =
     (let p1 = custom_IG p in
      and_then
        (if background (info p1) \<noteq> 0 \<and> \<not> stop_background p1 \<noteq> 0 then
           (let p2 = emit [Printf (''background pid is '' @ string_of_int (os_getpid os)
                                   @ '' \<newline>''), Fflush] p1 in
            and_then
              (if \<not> output_redirect (info p2) \<noteq> 0 then output_redirection os ''/dev/null'' p2
               else Return () p2)
              (\<lambda>_ p3.
                 if \<not> input_redirect (info p3) \<noteq> 0 then input_redirection os ''/dev/null'' p3
                 else Return () p3))
         else Return () (sigaction SIGINT SIG_DFL SA_RESETHAND p1))
        (\<lambda>_ p4.
           and_then
             (if input_redirect (info p4) \<noteq> 0
              then input_redirection os (input_filename (info p4)) p4
              else Return () p4)
             (\<lambda>_ p5.
                and_then
                  (if output_redirect (info p5) \<noteq> 0
                   then output_redirection os (output_filename (info p5)) p5
                   else Return () p5)
                  (\<lambda>_ p6. execvp os args p6))))"

text \<open>The parent's branch (\<^verbatim>\<open>default\<close>).\<close>

definition other_cmd_parent :: "os \<Rightarrow> int \<Rightarrow> proc \<Rightarrow> unit outcome" where
  "other_cmd_parent os spawnPid p =
     (if background (info p) \<noteq> 0 \<and> \<not> stop_background p \<noteq> 0 then
        (let r = os_waitpid os spawnPid WNOHANG;
             p1 = emit [Waitpid spawnPid WNOHANG] p in
         Return () (p1\<lparr>info := (info p1)\<lparr>exit_status := wait_store r (exit_status (info p1))\<rparr>\<rparr>))
      else
        (let r = os_waitpid os spawnPid NoOptions;
             p1 = emit [Waitpid spawnPid NoOptions] p;
             p2 = p1\<lparr>info := (info p1)\<lparr>exit_status := wait_store r (exit_status (info p1))\<rparr>\<rparr> in
         if exit_status (info p2) \<noteq> 0 then Return () (my_status os (exit_status (info p2)) p2)
         else Return () p2))"

definition other_cmd :: "os \<Rightarrow> string list \<Rightarrow> proc \<Rightarrow> unit outcome" where
  "other_cmd os args p =
     (let spawnPid = os_fork os; p0 = emit [Fork] p in
      if spawnPid = - 1 then Exit 1 (emit [Perror ''fork() \<newline>''] p0)
      else if spawnPid = 0 then other_cmd_child os args p0
      else other_cmd_parent os spawnPid p0)"

subsection \<open>The command executor and the reaper\<close>

text \<open>The loop at the end of \<^verbatim>\<open>execute_cmd\<close>, over the answers of its calls of
  \<^verbatim>\<open>waitpid(-1, &info->exit_status, WNOHANG)\<close>.\<close>

fun reap :: "os \<Rightarrow> wait_result list \<Rightarrow> proc \<Rightarrow> proc" where
  "reap os [] p = emit [Waitpid (- 1) WNOHANG] p"
| "reap os (r # rs) p =
     (let p1 = emit [Waitpid (- 1) WNOHANG] p;
          p2 = p1\<lparr>info := (info p1)\<lparr>exit_status := wait_store r (exit_status (info p1))\<rparr>\<rparr>;
          corpse = wait_ret r in
      if corpse > 0 then
        reap os rs
          (my_status os (exit_status (info p2))
             (emit [Printf (''background pid '' @ string_of_int corpse @ '' is done: ''),
                    Fflush] p2))
      else p2)"

definition execute_cmd :: "os \<Rightarrow> string list \<Rightarrow> proc \<Rightarrow> int outcome" where
  "execute_cmd os args p =
     (case args of
        [] \<Rightarrow> Fault NullDeref p
      | a0 # _ \<Rightarrow>
          and_then
            (if a0 = ''exit'' then (case my_exit p of (st, p1) \<Rightarrow> Return st p1)
             else if a0 = ''cd'' then Return 1 (my_cd os args p)
             else if a0 = ''status'' then Return 1 (my_status os (exit_status (info p)) p)
             else if a0 = ''\<newline>'' \<or> take 1 a0 = ''#'' then Return 1 p
             else and_then (other_cmd os args p) (\<lambda>_ p1. Return 1 p1))
            (\<lambda>status p1. Return status (reap os (os_reapable os) p1)))"

subsection \<open>Reading and parsing a line\<close>

text \<open>\<^verbatim>\<open>strtok_r(str, delim, &saveptr)\<close> from the position \<open>s\<close>: it skips the delimiters,
  answers null (\<open>None\<close>) at the end of the string, and otherwise the token that runs to
  the next delimiter, with the position after that delimiter as the new \<^verbatim>\<open>saveptr\<close>.\<close>

definition strtok_r :: "string \<Rightarrow> string \<Rightarrow> (string \<times> string) option" where
  "strtok_r s delim =
     (let s1 = dropWhile (\<lambda>c. c \<in> set delim) s in
      if s1 = [] then None
      else Some (takeWhile (\<lambda>c. c \<notin> set delim) s1,
                 drop 1 (dropWhile (\<lambda>c. c \<notin> set delim) s1)))"

text \<open>\<^verbatim>\<open>get_input\<close>: \<open>buf\<close> is what \<^verbatim>\<open>fgets\<close> has stored. \<^verbatim>\<open>strtok(buf, "\n")\<close> ends the
  string after its first token; it changes nothing when the buffer holds no token.\<close>

definition get_input :: "string \<Rightarrow> proc \<Rightarrow> string \<times> proc" where
  "get_input buf p =
     (let p1 = emit [Printf '': '', Fflush] p;
          line = (case strtok_r buf ''\<newline>'' of
                    None \<Rightarrow> buf
                  | Some (tok, _) \<Rightarrow> takeWhile (\<lambda>c. c \<in> set ''\<newline>'') buf @ tok) in
      (line, p1))"

text \<open>\<^verbatim>\<open>init_shell_info\<close>, on the object \<^verbatim>\<open>info\<close> points to.\<close>

definition init_shell_info :: "proc \<Rightarrow> proc" where
  "init_shell_info p =
     p\<lparr>info := (info p)\<lparr>background := 0, input_redirect := 0, output_redirect := 0,
                         input_filename := [], output_filename := []\<rparr>\<rparr>"

text \<open>The loop of \<^verbatim>\<open>parse_line\<close>. \<open>args\<close> are the entries of the array filled so far
  (the array has 512 entries, each filename 256 bytes). A null token given to
  \<^verbatim>\<open>strcpy\<close> is a fault. Heap blocks are modelled by their contents: the sizes given to
  \<^verbatim>\<open>malloc\<close> are not.\<close>

function parse_rest :: "os \<Rightarrow> string \<Rightarrow> string list \<Rightarrow> proc \<Rightarrow> (string list) outcome" where
  "parse_rest os saveptr args p =
     (case strtok_r saveptr '' '' of
        None \<Rightarrow> Return args p
      | Some (token, sp1) \<Rightarrow>
          if token = ''<'' then
            (let p1 = p\<lparr>info := (info p)\<lparr>input_redirect := 1\<rparr>\<rparr> in
             case strtok_r sp1 '' '' of
               None \<Rightarrow> Fault NullDeref p1
             | Some (fname, sp2) \<Rightarrow>
                 if length fname \<ge> 256 then Fault BufferOverflow p1
                 else parse_rest os sp2 args (p1\<lparr>info := (info p1)\<lparr>input_filename := fname\<rparr>\<rparr>))
          else if token = ''>'' then
            (let p1 = p\<lparr>info := (info p)\<lparr>output_redirect := 1\<rparr>\<rparr> in
             case strtok_r sp1 '' '' of
               None \<Rightarrow> Fault NullDeref p1
             | Some (fname, sp2) \<Rightarrow>
                 if length fname \<ge> 256 then Fault BufferOverflow p1
                 else parse_rest os sp2 args (p1\<lparr>info := (info p1)\<lparr>output_filename := fname\<rparr>\<rparr>))
          else if token = ''&'' then
            parse_rest os sp1 args (p\<lparr>info := (info p)\<lparr>background := 1\<rparr>\<rparr>)
          else if token = ''$$'' then
            (if length args \<ge> 512 then Fault BufferOverflow p
             else parse_rest os sp1 (args @ [string_of_int (os_getpid os)]) p)
          else
            (if length args \<ge> 512 then Fault BufferOverflow p
             else parse_rest os sp1 (args @ [token]) p))"
  by pat_completeness auto

lemma strtok_r_shorter: "strtok_r s delim = Some (t, r) \<Longrightarrow> length r < length s"
proof -
  assume a: "strtok_r s delim = Some (t, r)"
  let ?s1 = "dropWhile (\<lambda>c. c \<in> set delim) s"
  from a have ne: "?s1 \<noteq> []" and r: "r = drop 1 (dropWhile (\<lambda>c. c \<notin> set delim) ?s1)"
    by (auto simp: strtok_r_def Let_def split: if_splits)
  have "length r \<le> length ?s1 - 1"
    unfolding r by (simp add: length_dropWhile_le diff_le_mono)
  moreover have "0 < length ?s1" using ne by simp
  moreover have "length ?s1 \<le> length s" by (rule length_dropWhile_le)
  ultimately show ?thesis by linarith
qed

termination parse_rest
proof (relation "measure (\<lambda>(os, saveptr, args, p). length saveptr)")
  show "wf (measure (\<lambda>(os, saveptr, args, p). length saveptr))" by simp
qed (auto dest!: strtok_r_shorter)

declare parse_rest.simps [simp del]

definition parse_line :: "os \<Rightarrow> string \<Rightarrow> proc \<Rightarrow> (string list) outcome" where
  "parse_line os line p =
     (case strtok_r line '' '' of
        None \<Rightarrow> Fault NullDeref p
      | Some (token, sp) \<Rightarrow> parse_rest os sp [token] p)"

subsection \<open>The main loop\<close>

text \<open>One pass through the body of the loop of \<^verbatim>\<open>small_shell\<close>; it yields the value of
  \<^verbatim>\<open>status\<close>. \<^verbatim>\<open>free_memory\<close> leaves every entry of \<^verbatim>\<open>args\<close> null again.\<close>

definition small_shell_body :: "os \<Rightarrow> string \<Rightarrow> proc \<Rightarrow> int outcome" where
  "small_shell_body os buf p =
     (let p1 = init_shell_info p in
      case get_input buf p1 of
        (line, p2) \<Rightarrow>
          and_then (parse_line os line p2) (\<lambda>args p3. execute_cmd os args p3))"

text \<open>What reaches the interpreter while it runs: a line for \<^verbatim>\<open>fgets\<close>, together with
  the system's answers during that pass, or the suspend signal, delivered at the prompt.\<close>

datatype input = Line os string | Suspend

fun small_shell_loop :: "input list \<Rightarrow> proc \<Rightarrow> unit outcome" where
  "small_shell_loop [] p = Return () p"
| "small_shell_loop (Suspend # ins) p = small_shell_loop ins (handle_SIG SIGTSTP p)"
| "small_shell_loop (Line os buf # ins) p =
     and_then (small_shell_body os buf p)
       (\<lambda>status p1. if status \<noteq> 0 then small_shell_loop ins p1 else Exit 0 p1)"

text \<open>\<^verbatim>\<open>small_shell\<close> and \<^verbatim>\<open>main\<close>. The local \<^verbatim>\<open>struct shell_info info\<close> is declared without
  an initialiser: \<open>stack\<close> is what its memory holds at that moment. The global
  \<^verbatim>\<open>stop_background\<close> starts as 0; \<open>fds\<close> are the descriptors the process was given.\<close>

definition small_shell :: "shell_info \<Rightarrow> (nat \<Rightarrow> ofile option) \<Rightarrow> input list \<Rightarrow> unit outcome" where
  "small_shell stack fds ins =
     (let p0 = \<lparr>info = stack, stop_background = 0, fdtab = fds,
                sigdisp = (\<lambda>_. (SIG_DFL, SA_RESTART)), trace = []\<rparr>;
          p1 = custom_SIGTSTP (custom_SIG p0);
          p2 = emit [Printf ''small c-shell, enter shell commands like ls or echo \<newline>'',
                     Fflush] p1 in
      small_shell_loop ins p2)"

subsection \<open>Observing a run\<close>

fun final :: "'a outcome \<Rightarrow> proc" where
  "final (Return x p) = p"
| "final (Exit n p) = p"
| "final (Exec path argv p) = p"
| "final (Fault e p) = p"

text \<open>The calls made between two states of one process.\<close>

definition new_events :: "proc \<Rightarrow> proc \<Rightarrow> event list" where
  "new_events p p' = drop (length (trace p)) (trace p')"

text \<open>The background-start announcement: a \<^verbatim>\<open>printf\<close> of \<^verbatim>\<open>background pid is ...\<close>.\<close>

fun is_bg_announcement :: "event \<Rightarrow> bool" where
  "is_bg_announcement (Printf s) = (take 18 s = ''background pid is '')"
| "is_bg_announcement e = False"

fun is_printf :: "event \<Rightarrow> bool" where
  "is_printf (Printf s) = True"
| "is_printf e = False"

text \<open>The calls the two redirection functions make.\<close>

fun is_redirection_call :: "event \<Rightarrow> bool" where
  "is_redirection_call (Open path fl) = True"
| "is_redirection_call (Dup2 a b) = True"
| "is_redirection_call (Close fd) = True"
| "is_redirection_call e = False"

fun is_perror :: "event \<Rightarrow> bool" where
  "is_perror (Perror s) = True"
| "is_perror e = False"

fun is_execvp :: "event \<Rightarrow> bool" where
  "is_execvp (Execvp a argv) = True"
| "is_execvp e = False"

text \<open>The tokens of a line, as successive calls of \<^verbatim>\<open>strtok_r\<close> with \<^verbatim>\<open>" "\<close> yield them.\<close>

function tokens :: "string \<Rightarrow> string list" where
  "tokens s = (case strtok_r s '' '' of None \<Rightarrow> [] | Some (t, r) \<Rightarrow> t # tokens r)"
  by pat_completeness auto
termination
proof (relation "measure length")
  show "wf (measure length)" by simp
qed (auto dest!: strtok_r_shorter)

declare tokens.simps [simp del]

subsection \<open>Sample values\<close>

text \<open>The wait-status macros as Linux defines them, a system where every call succeeds,
  and a process with the three standard descriptors on the terminal.\<close>

definition sample_os :: os where
  "sample_os =
     \<lparr>os_getpid = 4242, os_fork = 0, os_open_ok = (\<lambda>_ _. True), os_open_max = 8,
      os_dup2_ok = (\<lambda>_ _. True), os_exec_ok = (\<lambda>_ _. True),
      os_waitpid = (\<lambda>pid _. Reaped pid 0), os_reapable = [],
      os_home = Some ''/root'', os_chdir_ok = (\<lambda>_. True),
      WIFEXITED = (\<lambda>st. st mod 128 = 0),
      WEXITSTATUS = (\<lambda>st. (st div 256) mod 256),
      WTERMSIG = (\<lambda>st. st mod 128)\<rparr>"

definition sample_info :: shell_info where
  "sample_info =
     \<lparr>background = 0, exit_status = 0, output_redirect = 0, input_redirect = 0,
      output_filename = [], input_filename = []\<rparr>"

definition sample_proc :: proc where
  "sample_proc =
     \<lparr>info = sample_info, stop_background = 0,
      fdtab = (\<lambda>n. if n < 3 then Some (''/dev/tty'', O_RDWR) else None),
      sigdisp = (\<lambda>_. (SIG_IGN, SA_RESTART)), trace = []\<rparr>"

text \<open>A state with a background request, and the system as the parent and as the child
  of a successful \<^verbatim>\<open>fork\<close> see it (the child, pid 4243, exits with code 1).\<close>

definition bg_proc :: proc where
  "bg_proc = sample_proc\<lparr>info := sample_info\<lparr>background := 1\<rparr>\<rparr>"

definition parent_os :: os where
  "parent_os =
     sample_os\<lparr>os_fork := 4243,
               os_waitpid := (\<lambda>pid opts. case opts of WNOHANG \<Rightarrow> NotReady
                                          | NoOptions \<Rightarrow> Reaped pid 256)\<rparr>"

definition child_os :: os where
  "child_os = sample_os\<lparr>os_getpid := 4243, os_fork := 0\<rparr>"

text \<open>A child for which every \<^verbatim>\<open>dup2\<close> fails.\<close>

definition dup2_fails_os :: os where
  "dup2_fails_os = child_os\<lparr>os_dup2_ok := (\<lambda>oldfd newfd. False)\<rparr>"

text \<open>A process with a background request that was started with standard output closed.\<close>

definition closed_stdout_proc :: proc where
  "closed_stdout_proc = bg_proc\<lparr>fdtab := (fdtab bg_proc)(1 := None)\<rparr>"

text \<open>A state as an earlier command can leave it: the per-command fields set, a status
  stored, foreground-only mode on.\<close>

definition later_proc :: proc where
  "later_proc =
     sample_proc\<lparr>info := \<lparr>background = 1, exit_status = 256, output_redirect = 1,
                            input_redirect = 1, output_filename = ''out'',
                            input_filename = ''in''\<rparr>,
                  stop_background := 1\<rparr>"

subsection \<open>Runs of one process\<close>

text \<open>One process moving from \<open>p\<close> to \<open>q\<close> by calls that satisfy \<open>P\<close>, its memory and
  signal dispositions unchanged.\<close>

definition steps :: "(event \<Rightarrow> bool) \<Rightarrow> proc \<Rightarrow> proc \<Rightarrow> bool" where
  "steps P p q =
     (info q = info p \<and> stop_background q = stop_background p \<and> sigdisp q = sigdisp p \<and>
      (\<exists>es. trace q = trace p @ es \<and> list_all P es))"

definition is_launch_call :: "event \<Rightarrow> bool" where
  "is_launch_call e = (is_redirection_call e \<or> is_perror e \<or> is_execvp e)"

text \<open>The state of the child after its first calls; from there on it makes calls of
  redirection and \<^verbatim>\<open>execvp\<close> only.\<close>

definition child_start :: "os \<Rightarrow> proc \<Rightarrow> proc" where
  "child_start os p =
     (if background (info p) \<noteq> 0 \<and> stop_background p = 0 then
        emit [Printf (''background pid is '' @ string_of_int (os_getpid os) @ '' \<newline>''),
              Fflush] (custom_IG p)
      else sigaction SIGINT SIG_DFL SA_RESETHAND (custom_IG p))"

subsection \<open>The decoding rule in the specification's words\<close>

text \<open>``If the process terminated by calling exit, print exit value N; otherwise print
  terminated by signal N.''\<close>

definition decoded_status :: "os \<Rightarrow> int \<Rightarrow> string" where
  "decoded_status os st =
     (if WIFEXITED os st then ''exit value '' @ string_of_int (WEXITSTATUS os st)
      else ''terminated by signal '' @ string_of_int (WTERMSIG os st))"

subsection \<open>The background request in the specification's words\<close>

text \<open>``The line's trailing token is \<^verbatim>\<open>&\<close>.''\<close>

definition trailing_amp :: "string \<Rightarrow> bool" where
  "trailing_amp line = (tokens line \<noteq> [] \<and> last (tokens line) = ''&'')"

text \<open>Among the tokens that follow the command name, one that is not the operand of a
  \<^verbatim>\<open><\<close> or \<^verbatim>\<open>>\<close> before it is \<^verbatim>\<open>&\<close>.\<close>

fun amp_argument :: "string list \<Rightarrow> bool" where
  "amp_argument [] = False"
| "amp_argument (t # ts) =
     (if t = ''<'' \<or> t = ''>'' then amp_argument (tl ts) else t = ''&'' \<or> amp_argument ts)"

section \<open>Theorems\<close>

subsection \<open>Basic facts\<close>

lemma emit_simps [simp]:
  "trace (emit es p) = trace p @ es"
  "info (emit es p) = info p"
  "stop_background (emit es p) = stop_background p"
  "fdtab (emit es p) = fdtab p"
  "sigdisp (emit es p) = sigdisp p"
  by (simp_all add: emit_def)

lemma new_events_append [simp]: "trace p' = trace p @ es \<Longrightarrow> new_events p p' = es"
  by (simp add: new_events_def)

text \<open>Unfolding the definitions at a concrete input.\<close>

lemmas eval_simps = sample_os_def sample_proc_def sample_info_def later_proc_def
  bg_proc_def parent_os_def child_os_def dup2_fails_os_def
  parse_line_def parse_rest.simps strtok_r_def get_input_def init_shell_info_def
  string_of_int_def string_of_nat.simps Let_def emit_def

subsection \<open>Status decoding\<close>

lemma my_status_simps [simp]:
  "trace (my_status os st p) = trace p @ [Printf (decoded_status os st @ '' \<newline>''), Fflush]"
  "info (my_status os st p) = info p"
  "stop_background (my_status os st p) = stop_background p"
  "fdtab (my_status os st p) = fdtab p"
  "sigdisp (my_status os st p) = sigdisp p"
  by (simp_all add: my_status_def decoded_status_def)

text \<open>
  Claim C5. For every wait status, \<^verbatim>\<open>my_status\<close> prints \<^verbatim>\<open>exit value N\<close>, N the exit code,
  when the process terminated by calling exit, and otherwise \<^verbatim>\<open>terminated by signal N\<close>,
  N the signal number (each followed by a space and a newline). The \<^verbatim>\<open>status\<close> built-in,
  the report of a reaped background child and the report of a foreground child whose
  status is not 0 are all calls of this one function.
\<close>

theorem status_decoding:
  "trace (my_status os st p) = trace p @ [Printf (decoded_status os st @ '' \<newline>''), Fflush] \<and>
   decoded_status os st =
     (if WIFEXITED os st then ''exit value '' @ string_of_int (WEXITSTATUS os st)
      else ''terminated by signal '' @ string_of_int (WTERMSIG os st)) \<and>
   execute_cmd os (''status'' # rest) p =
     Return 1 (reap os (os_reapable os) (my_status os (exit_status (info p)) p)) \<and>
   (0 < pid \<longrightarrow>
      reap os (Reaped pid st # rs) p =
        reap os rs
          (my_status os st
             (emit [Waitpid (- 1) WNOHANG,
                    Printf (''background pid '' @ string_of_int pid @ '' is done: ''), Fflush]
                (p\<lparr>info := (info p)\<lparr>exit_status := st\<rparr>\<rparr>)))) \<and>
   (\<not> (background (info p) \<noteq> 0 \<and> \<not> foreground_only p) \<and>
    os_waitpid os spawnPid NoOptions = Reaped spawnPid st \<and> st \<noteq> 0 \<longrightarrow>
      other_cmd_parent os spawnPid p =
        Return () (my_status os st
                     (emit [Waitpid spawnPid NoOptions] (p\<lparr>info := (info p)\<lparr>exit_status := st\<rparr>\<rparr>))))"
  apply (intro conjI impI)
      apply simp
     apply (simp add: decoded_status_def)
    apply (simp add: execute_cmd_def)
   apply (simp add: emit_def Let_def)
  apply (auto simp: other_cmd_parent_def foreground_only_def emit_def Let_def)
  done

theorem status_decoding_witness:
  "trace (my_status sample_os 256 sample_proc) = [Printf ''exit value 1 \<newline>'', Fflush] \<and>
   trace (my_status sample_os 2 sample_proc) = [Printf ''terminated by signal 2 \<newline>'', Fflush] \<and>
   trace (final (execute_cmd sample_os [''status''] later_proc)) =
     [Printf ''exit value 1 \<newline>'', Fflush, Waitpid (- 1) WNOHANG] \<and>
   (0::int) < 77 \<and>
   trace (reap sample_os [Reaped 77 15] sample_proc) =
     [Waitpid (- 1) WNOHANG, Printf ''background pid 77 is done: '', Fflush,
      Printf ''terminated by signal 15 \<newline>'', Fflush, Waitpid (- 1) WNOHANG] \<and>
   \<not> (background (info sample_proc) \<noteq> 0 \<and> \<not> foreground_only sample_proc) \<and>
   os_waitpid (sample_os\<lparr>os_waitpid := \<lambda>pid _. Reaped pid 512\<rparr>) 4243 NoOptions = Reaped 4243 512 \<and>
   trace (final (other_cmd_parent (sample_os\<lparr>os_waitpid := \<lambda>pid _. Reaped pid 512\<rparr>) 4243 sample_proc)) =
     [Waitpid 4243 NoOptions, Printf ''exit value 2 \<newline>'', Fflush]"
  using status_decoding [of sample_os 256 sample_proc "[]" 77 "[]" 4243]
        status_decoding [of sample_os 2 sample_proc "[]" 77 "[]" 4243]
        status_decoding [of sample_os 15 sample_proc "[]" 77 "[]" 4243]
        status_decoding [of sample_os 256 later_proc "[]" 77 "[]" 4243]
        status_decoding [of "sample_os\<lparr>os_waitpid := \<lambda>pid _. Reaped pid 512\<rparr>" 512 sample_proc "[]" 77 "[]" 4243]
  by (simp add: decoded_status_def eval_simps foreground_only_def)

subsection \<open>The state between commands\<close>

lemma init_shell_info_simps [simp]:
  "trace (init_shell_info p) = trace p"
  "stop_background (init_shell_info p) = stop_background p"
  "fdtab (init_shell_info p) = fdtab p"
  "sigdisp (init_shell_info p) = sigdisp p"
  "exit_status (info (init_shell_info p)) = exit_status (info p)"
  "background (info (init_shell_info p)) = 0"
  "input_redirect (info (init_shell_info p)) = 0"
  "output_redirect (info (init_shell_info p)) = 0"
  "input_filename (info (init_shell_info p)) = []"
  "output_filename (info (init_shell_info p)) = []"
  by (simp_all add: init_shell_info_def)

text \<open>The parser writes the per-command fields only.\<close>

lemma parse_rest_frame:
  "exit_status (info (final (parse_rest os sp args p))) = exit_status (info p) \<and>
   stop_background (final (parse_rest os sp args p)) = stop_background p \<and>
   fdtab (final (parse_rest os sp args p)) = fdtab p \<and>
   sigdisp (final (parse_rest os sp args p)) = sigdisp p \<and>
   trace (final (parse_rest os sp args p)) = trace p"
proof (induction os sp args p rule: parse_rest.induct)
  case (1 os saveptr args p)
  show ?case
    using 1
    by (simp add: parse_rest.simps[of os saveptr args p] Let_def split: option.splits)
qed

lemma parse_line_frame:
  "exit_status (info (final (parse_line os line p))) = exit_status (info p) \<and>
   stop_background (final (parse_line os line p)) = stop_background p \<and>
   fdtab (final (parse_line os line p)) = fdtab p \<and>
   sigdisp (final (parse_line os line p)) = sigdisp p \<and>
   trace (final (parse_line os line p)) = trace p"
  by (simp add: parse_line_def parse_rest_frame split: option.splits)

lemma get_input_simps [simp]:
  "trace (snd (get_input buf p)) = trace p @ [Printf '': '', Fflush]"
  "info (snd (get_input buf p)) = info p"
  "stop_background (snd (get_input buf p)) = stop_background p"
  "fdtab (snd (get_input buf p)) = fdtab p"
  "sigdisp (snd (get_input buf p)) = sigdisp p"
  by (simp_all add: get_input_def Let_def)

text \<open>
  Claim C9. In every pass of the loop, the reset at its start (\<^verbatim>\<open>init_shell_info\<close>) clears
  the per-command fields only (the background flag, the two redirection flags, the two
  filenames) and leaves \<^verbatim>\<open>stop_background\<close> and \<^verbatim>\<open>exit_status\<close> as they were; so the
  command of the pass is executed with the values of these two that the pass before left.
\<close>

theorem reset_frame:
  "background (info (init_shell_info p)) = 0 \<and>
   input_redirect (info (init_shell_info p)) = 0 \<and>
   output_redirect (info (init_shell_info p)) = 0 \<and>
   input_filename (info (init_shell_info p)) = [] \<and>
   output_filename (info (init_shell_info p)) = [] \<and>
   exit_status (info (init_shell_info p)) = exit_status (info p) \<and>
   stop_background (init_shell_info p) = stop_background p \<and>
   fdtab (init_shell_info p) = fdtab p \<and> sigdisp (init_shell_info p) = sigdisp p \<and>
   trace (init_shell_info p) = trace p \<and>
   (parse_line os (fst (get_input buf (init_shell_info p)))
      (snd (get_input buf (init_shell_info p))) = Return args p' \<longrightarrow>
    small_shell_body os buf p = execute_cmd os args p' \<and>
    exit_status (info p') = exit_status (info p) \<and> stop_background p' = stop_background p)"
proof -
  have "exit_status (info p') = exit_status (info p) \<and> stop_background p' = stop_background p \<and>
        small_shell_body os buf p = execute_cmd os args p'"
    if a: "parse_line os (fst (get_input buf (init_shell_info p)))
             (snd (get_input buf (init_shell_info p))) = Return args p'"
  proof -
    from parse_line_frame [of os "fst (get_input buf (init_shell_info p))"
                              "snd (get_input buf (init_shell_info p))"]
    have "exit_status (info p') = exit_status (info p)" "stop_background p' = stop_background p"
      by (simp_all add: a)
    moreover have "small_shell_body os buf p = execute_cmd os args p'"
      using a by (auto simp: small_shell_body_def Let_def split: prod.splits)
    ultimately show ?thesis by simp
  qed
  then show ?thesis by simp
qed

theorem reset_frame_witness:
  "background (info (init_shell_info later_proc)) = 0 \<and>
   exit_status (info (init_shell_info later_proc)) = 256 \<and>
   stop_background (init_shell_info later_proc) = 1 \<and>
   parse_line sample_os (fst (get_input ''ls -l\<newline>'' (init_shell_info later_proc)))
      (snd (get_input ''ls -l\<newline>'' (init_shell_info later_proc))) =
     Return [''ls'', ''-l''] (emit [Printf '': '', Fflush] (init_shell_info later_proc)) \<and>
   small_shell_body sample_os ''ls -l\<newline>'' later_proc =
     execute_cmd sample_os [''ls'', ''-l''] (emit [Printf '': '', Fflush] (init_shell_info later_proc)) \<and>
   exit_status (info (emit [Printf '': '', Fflush] (init_shell_info later_proc))) = exit_status (info later_proc) \<and>
   stop_background (emit [Printf '': '', Fflush] (init_shell_info later_proc)) = stop_background later_proc"
proof -
  have e: "parse_line sample_os (fst (get_input ''ls -l\<newline>'' (init_shell_info later_proc)))
      (snd (get_input ''ls -l\<newline>'' (init_shell_info later_proc))) =
     Return [''ls'', ''-l''] (emit [Printf '': '', Fflush] (init_shell_info later_proc))"
    by (simp add: eval_simps)
  from reset_frame [of later_proc sample_os "''ls -l\<newline>''" "[''ls'', ''-l'']"
        "emit [Printf '': '', Fflush] (init_shell_info later_proc)"] e
  show ?thesis by (simp add: later_proc_def sample_proc_def)
qed

subsection \<open>A line of spaces\<close>

lemma strtok_r_spaces: "strtok_r (replicate n (CHR '' '')) '' '' = None"
  by (simp add: strtok_r_def)

lemma get_input_spaces:
  "fst (get_input (replicate (Suc n) (CHR '' '') @ ''\<newline>'') p) = replicate (Suc n) (CHR '' '')"
  by (simp add: get_input_def strtok_r_def Let_def takeWhile_tail dropWhile_append3)

text \<open>
  Claim C10. There are input lines on which the parser faults: for a line of one or more
  spaces, \<^verbatim>\<open>get_input\<close> strips the newline and hands the spaces on, the first call of
  \<^verbatim>\<open>strtok_r\<close> in \<^verbatim>\<open>parse_line\<close> answers null, and \<^verbatim>\<open>strlen\<close> and \<^verbatim>\<open>strcpy\<close> dereference
  it. So one pass of the loop of \<^verbatim>\<open>small_shell\<close> on such a line ends in the fault.
\<close>

theorem parse_line_blank_faults:
  "fst (get_input (replicate (Suc n) (CHR '' '') @ ''\<newline>'') p) = replicate (Suc n) (CHR '' '') \<and>
   strtok_r (replicate (Suc n) (CHR '' '')) '' '' = None \<and>
   parse_line os (replicate (Suc n) (CHR '' '')) p = Fault NullDeref p \<and>
   small_shell_body os (replicate (Suc n) (CHR '' '') @ ''\<newline>'') p =
     Fault NullDeref (emit [Printf '': '', Fflush] (init_shell_info p))"
proof -
  let ?sp = "replicate (Suc n) (CHR '' '')"
  have g: "get_input (?sp @ ''\<newline>'') q = (?sp, emit [Printf '': '', Fflush] q)" for q
    using get_input_spaces [of n q] by (simp add: get_input_def Let_def)
  have pl: "parse_line os ?sp q = Fault NullDeref q" for q
    by (simp only: parse_line_def strtok_r_spaces option.case)
  show ?thesis
    by (simp add: strtok_r_spaces pl small_shell_body_def g del: replicate_Suc)
qed

subsection \<open>The background request\<close>

lemma tokens_Some: "strtok_r s '' '' = Some (t, r) \<Longrightarrow> tokens s = t # tokens r"
  by (simp add: tokens.simps[of s])

lemma tokens_None: "strtok_r s '' '' = None \<Longrightarrow> tokens s = []"
  by (simp add: tokens.simps[of s])

lemma amp_tokens_unfold:
  "amp_argument (tokens s) =
     (case strtok_r s '' '' of
        None \<Rightarrow> False
      | Some (t, r) \<Rightarrow>
          if t = ''<'' \<or> t = ''>'' then
            (case strtok_r r '' '' of
               None \<Rightarrow> False
             | Some (f, r') \<Rightarrow> amp_argument (tokens r'))
          else t = ''&'' \<or> amp_argument (tokens r))"
proof (cases "strtok_r s '' ''")
  case None
  then show ?thesis by (simp add: tokens_None)
next
  case (Some a)
  obtain t r where a: "a = (t, r)" by (cases a)
  have ts: "tokens s = t # tokens r" using Some a by (simp add: tokens_Some)
  show ?thesis
  proof (cases "strtok_r r '' ''")
    case None
    then show ?thesis using Some a ts by (simp add: tokens_None)
  next
    case (Some b)
    obtain f r' where b: "b = (f, r')" by (cases b)
    have tr: "tokens r = f # tokens r'" using Some b by (simp add: tokens_Some)
    show ?thesis using \<open>strtok_r s '' '' = Some a\<close> a ts Some b tr by simp
  qed
qed

lemma parse_rest_background:
  "parse_rest os sp args p = Return args' p' \<Longrightarrow>
   background (info p') = (if amp_argument (tokens sp) then 1 else background (info p))"
proof (induction "length sp" arbitrary: sp args p rule: less_induct)
  case less
  note IH = less.hyps and prem = less.prems
  show ?case
  proof (cases "strtok_r sp '' ''")
    case None
    with prem show ?thesis
      by (simp add: parse_rest.simps[of os sp args p] amp_tokens_unfold[of sp])
  next
    case (Some a)
    obtain token sp1 where a: "strtok_r sp '' '' = Some (token, sp1)"
      using Some by (cases a) simp
    have l1: "length sp1 < length sp" using a by (rule strtok_r_shorter)
    show ?thesis
    proof (cases "token = ''<'' \<or> token = ''>''")
      case True
      show ?thesis
      proof (cases "strtok_r sp1 '' ''")
        case None
        with prem a True show ?thesis
          by (auto simp: parse_rest.simps[of os sp args p] Let_def)
      next
        case (Some b)
        obtain fname sp2 where b: "strtok_r sp1 '' '' = Some (fname, sp2)"
          using Some by (cases b) simp
        have l2: "length sp2 < length sp" using strtok_r_shorter[OF b] l1 by simp
        from prem a b True obtain p1 where
          r: "parse_rest os sp2 args p1 = Return args' p'" and
          bg: "background (info p1) = background (info p)"
          by (auto simp: parse_rest.simps[of os sp args p] Let_def split: if_splits)
        from IH[OF l2 r] bg show ?thesis
          using True by (simp add: amp_tokens_unfold[of sp] a b)
      qed
    next
      case False
      from prem a False obtain args1 p1 where
        r: "parse_rest os sp1 args1 p1 = Return args' p'" and
        bg: "background (info p1) = (if token = ''&'' then 1 else background (info p))"
        by (auto simp: parse_rest.simps[of os sp args p] Let_def split: if_splits)
      from IH[OF l1 r] bg show ?thesis
        using False by (simp add: amp_tokens_unfold[of sp] a)
    qed
  qed
qed

lemma amp_argument_plain:
  "''<'' \<notin> set ts \<Longrightarrow> ''>'' \<notin> set ts \<Longrightarrow> amp_argument ts = (''&'' \<in> set ts)"
  by (induction ts) auto

text \<open>
  Claim C7, as amended. For every input line that \<^verbatim>\<open>parse_line\<close> accepts, the
  background flag is set, to 1, exactly when one of the tokens after the first, other than
  a token taken as the filename after a \<^verbatim>\<open><\<close> or \<^verbatim>\<open>>\<close>, is \<^verbatim>\<open>&\<close>; that token need not be
  the last one. On a line without \<^verbatim>\<open><\<close> and \<^verbatim>\<open>>\<close> this is: exactly when \<^verbatim>\<open>&\<close> is among the
  tokens after the first, which holds in particular when the line has two tokens or more
  and the last is \<^verbatim>\<open>&\<close>.
\<close>

theorem parse_line_background:
  "(parse_line os line (init_shell_info p) = Return args p' \<longrightarrow>
      background (info p') = (if amp_argument (tl (tokens line)) then 1 else 0)) \<and>
   (''<'' \<notin> set (tokens line) \<and> ''>'' \<notin> set (tokens line) \<longrightarrow>
      amp_argument (tl (tokens line)) = (''&'' \<in> set (tl (tokens line))) \<and>
      (trailing_amp line \<and> 2 \<le> length (tokens line) \<longrightarrow> amp_argument (tl (tokens line))))"
proof (intro conjI impI)
  assume a: "parse_line os line (init_shell_info p) = Return args p'"
  then obtain t sp where t: "strtok_r line '' '' = Some (t, sp)"
    and r: "parse_rest os sp [t] (init_shell_info p) = Return args p'"
    by (auto simp: parse_line_def split: option.splits)
  have "tl (tokens line) = tokens sp" using t by (simp add: tokens.simps[of line])
  with parse_rest_background [OF r] show "background (info p') = (if amp_argument (tl (tokens line)) then 1 else 0)"
    by simp
next
  assume "''<'' \<notin> set (tokens line) \<and> ''>'' \<notin> set (tokens line)"
  moreover have "x \<in> set (tl xs) \<Longrightarrow> x \<in> set xs" for x :: string and xs
    by (cases xs) simp_all
  ultimately have "''<'' \<notin> set (tl (tokens line))" "''>'' \<notin> set (tl (tokens line))"
    by blast+
  then show plain: "amp_argument (tl (tokens line)) = (''&'' \<in> set (tl (tokens line)))"
    by (rule amp_argument_plain)
  assume t: "trailing_amp line \<and> 2 \<le> length (tokens line)"
  then have ne: "tl (tokens line) \<noteq> []" by (cases "tokens line") auto
  then have "last (tl (tokens line)) = last (tokens line)" by (simp add: last_tl)
  with t ne have "''&'' \<in> set (tl (tokens line))"
    unfolding trailing_amp_def by (metis last_in_set)
  with plain show "amp_argument (tl (tokens line))" by simp
qed


theorem parse_line_background_witness:
  "parse_line sample_os ''sleep & 5'' (init_shell_info later_proc) =
     Return [''sleep'', ''5'']
       ((init_shell_info later_proc)\<lparr>info := (info (init_shell_info later_proc))\<lparr>background := 1\<rparr>\<rparr>) \<and>
   amp_argument (tl (tokens ''sleep & 5'')) \<and>
   ''<'' \<notin> set (tokens ''sleep & 5'') \<and> ''>'' \<notin> set (tokens ''sleep & 5'') \<and>
   ''&'' \<in> set (tl (tokens ''sleep & 5'')) \<and>
   trailing_amp ''ls &'' \<and> 2 \<le> length (tokens ''ls &'') \<and>
   ''<'' \<notin> set (tokens ''ls &'') \<and> ''>'' \<notin> set (tokens ''ls &'') \<and>
   amp_argument (tl (tokens ''ls &''))"
proof -
  have e: "parse_line sample_os ''sleep & 5'' (init_shell_info later_proc) =
     Return [''sleep'', ''5'']
       ((init_shell_info later_proc)\<lparr>info := (info (init_shell_info later_proc))\<lparr>background := 1\<rparr>\<rparr>)"
    by (simp add: eval_simps)
  have t: "tokens ''sleep & 5'' = [''sleep'', ''&'', ''5'']"
    by (simp add: tokens.simps strtok_r_def)
  have t': "tokens ''ls &'' = [''ls'', ''&'']"
    by (simp add: tokens.simps strtok_r_def)
  from parse_line_background [of sample_os "''sleep & 5''" later_proc "[''sleep'', ''5'']"
      "(init_shell_info later_proc)\<lparr>info := (info (init_shell_info later_proc))\<lparr>background := 1\<rparr>\<rparr>"]
    parse_line_background [of sample_os "''ls &''" later_proc "[]" later_proc]
    e t t'
  show ?thesis by (simp add: trailing_amp_def)
qed

text \<open>
  Claim C7 as stated fails in both directions: on \<^verbatim>\<open>sleep & 5\<close> the flag is set although
  the last token is \<^verbatim>\<open>5\<close>; on \<^verbatim>\<open>&\<close> and on \<^verbatim>\<open>cat < &\<close> the last token is \<^verbatim>\<open>&\<close> and the
  flag stays 0 (the token is the command name, respectively the input filename).
\<close>

theorem trailing_amp_counterexample:
  "\<not> trailing_amp ''sleep & 5'' \<and>
   parse_line sample_os ''sleep & 5'' (init_shell_info sample_proc) =
     Return [''sleep'', ''5''] (sample_proc\<lparr>info := sample_info\<lparr>background := 1\<rparr>\<rparr>) \<and>
   trailing_amp ''&'' \<and>
   parse_line sample_os ''&'' (init_shell_info sample_proc) = Return [''&''] sample_proc \<and>
   trailing_amp ''cat < &'' \<and>
   parse_line sample_os ''cat < &'' (init_shell_info sample_proc) =
     Return [''cat''] (sample_proc\<lparr>info := sample_info\<lparr>input_redirect := 1, input_filename := ''&''\<rparr>\<rparr>)"
proof -
  have t1: "tokens ''sleep & 5'' = [''sleep'', ''&'', ''5'']"
    by (simp add: tokens.simps strtok_r_def)
  have t2: "tokens ''&'' = [''&'']"
    by (simp add: tokens.simps strtok_r_def)
  have t3: "tokens ''cat < &'' = [''cat'', ''<'', ''&'']"
    by (simp add: tokens.simps strtok_r_def)
  have p1: "parse_line sample_os ''sleep & 5'' (init_shell_info sample_proc) =
     Return [''sleep'', ''5''] (sample_proc\<lparr>info := sample_info\<lparr>background := 1\<rparr>\<rparr>)"
    by (simp add: eval_simps)
  have p2: "parse_line sample_os ''&'' (init_shell_info sample_proc) = Return [''&''] sample_proc"
    by (simp add: eval_simps)
  have p3: "parse_line sample_os ''cat < &'' (init_shell_info sample_proc) =
     Return [''cat''] (sample_proc\<lparr>info := sample_info\<lparr>input_redirect := 1, input_filename := ''&''\<rparr>\<rparr>)"
    by (simp add: eval_simps)
  show ?thesis
    by (simp only: t1 t2 t3 p1 p2 p3 trailing_amp_def) simp
qed

subsection \<open>Redirection and the launcher\<close>

lemma steps_refl [simp]: "steps P p p"
  by (simp add: steps_def)

lemma steps_trans: "steps P p q \<Longrightarrow> steps P q r \<Longrightarrow> steps P p r"
  by (auto simp: steps_def)

lemma steps_and_then:
  assumes "steps P p (final m)" and "\<And>x q. m = Return x q \<Longrightarrow> steps P q (final (f x q))"
  shows "steps P p (final (and_then m f))"
  using assms by (cases m) (auto intro: steps_trans)

lemma lowest_free_Some: "lowest_free os p = Some fd \<Longrightarrow> fdtab p fd = None"
  by (auto simp: lowest_free_def find_Some_iff)

lemma output_redirection_launch:
  "steps is_launch_call p (final (output_redirection os f p))"
  by (auto simp: output_redirection_def sys_open_def sys_dup2_def sys_close_def Let_def steps_def
        is_launch_call_def split: option.splits)

lemma input_redirection_launch:
  "steps is_launch_call p (final (input_redirection os f p))"
  by (auto simp: input_redirection_def sys_open_def sys_dup2_def sys_close_def Let_def steps_def
        is_launch_call_def split: option.splits)

lemma output_redirection_fdtab:
  "output_redirection os f p = Return u q \<Longrightarrow> fdtab p 1 \<noteq> None \<Longrightarrow>
   fdtab q = (fdtab p)(1 := Some (f, O_WRONLY_CREAT_TRUNC))"
  by (auto simp: output_redirection_def sys_open_def sys_dup2_def sys_close_def Let_def fun_eq_iff
        split: option.splits if_splits dest!: lowest_free_Some)

lemma input_redirection_fdtab:
  "input_redirection os f p = Return u q \<Longrightarrow> fdtab p 0 \<noteq> None \<Longrightarrow>
   fdtab q = (fdtab p)(0 := Some (f, O_RDONLY))"
  by (auto simp: input_redirection_def sys_open_def sys_dup2_def sys_close_def Let_def fun_eq_iff
        split: option.splits if_splits dest!: lowest_free_Some intro!: gr0I)

lemma output_redirection_outcome:
  "(\<exists>q. output_redirection os f p = Return () q) \<or> (\<exists>q. output_redirection os f p = Exit 1 q)"
  by (auto simp: output_redirection_def sys_open_def sys_dup2_def Let_def split: option.splits)

lemma input_redirection_outcome:
  "(\<exists>q. input_redirection os f p = Return () q) \<or> (\<exists>q. input_redirection os f p = Exit 1 q)
   \<or> (\<exists>q. input_redirection os f p = Exit 0 q)"
  by (auto simp: input_redirection_def sys_open_def sys_dup2_def Let_def split: option.splits)


lemma execvp_steps: "steps is_launch_call p (final (execvp os args p :: unit outcome))"
  by (auto simp: execvp_def steps_def is_launch_call_def split: list.splits)

lemma execvp_fdtab: "fdtab (final (execvp os args p :: unit outcome)) = fdtab p"
  by (auto simp: execvp_def split: list.splits)

lemma sigaction_simps [simp]:
  "trace (sigaction sig h fl p) = trace p @ [Sigaction sig h fl]"
  "info (sigaction sig h fl p) = info p"
  "stop_background (sigaction sig h fl p) = stop_background p"
  "fdtab (sigaction sig h fl p) = fdtab p"
  "sigdisp (sigaction sig h fl p) = (sigdisp p)(sig := (h, fl))"
  by (simp_all add: sigaction_def)

lemma custom_IG_simps [simp]:
  "trace (custom_IG p) = trace p @ [Sigaction SIGTSTP SIG_IGN SA_RESTART]"
  "info (custom_IG p) = info p"
  "stop_background (custom_IG p) = stop_background p"
  "fdtab (custom_IG p) = fdtab p"
  "sigdisp (custom_IG p) = (sigdisp p)(SIGTSTP := (SIG_IGN, SA_RESTART))"
  by (simp_all add: custom_IG_def)

lemma other_cmd_child_steps:
  "steps is_launch_call (child_start os p) (final (other_cmd_child os args p))"
  unfolding other_cmd_child_def child_start_def Let_def
  by (auto intro!: steps_and_then output_redirection_launch input_redirection_launch
        execvp_steps)

lemma announcement_is_printf: "is_bg_announcement e \<Longrightarrow> is_printf e"
  by (cases e) simp_all

lemma launch_call_not_printf: "is_launch_call e \<Longrightarrow> \<not> is_printf e"
  by (cases e) (simp_all add: is_launch_call_def)

lemma decoded_status_not_announcement:
  "\<not> is_bg_announcement (Printf (decoded_status os st @ s))"
  by (simp add: decoded_status_def)

lemma other_cmd_parent_foreground:
  assumes "\<not> (background (info p) \<noteq> 0 \<and> stop_background p = 0)"
  shows "other_cmd_parent os spawnPid p =
           (let st = wait_store (os_waitpid os spawnPid NoOptions) (exit_status (info p));
                q = p\<lparr>info := (info p)\<lparr>exit_status := st\<rparr>,
                      trace := trace p @ [Waitpid spawnPid NoOptions] @
                        (if st \<noteq> 0 then [Printf (decoded_status os st @ '' \<newline>''), Fflush] else [])\<rparr>
            in Return () q)"
  using assms
  by (auto simp: other_cmd_parent_def Let_def emit_def my_status_def decoded_status_def)

lemma other_cmd_parent_background:
  assumes "background (info p) \<noteq> 0" "stop_background p = 0"
  shows "other_cmd_parent os spawnPid p =
           Return () (p\<lparr>info := (info p)\<lparr>exit_status :=
                          wait_store (os_waitpid os spawnPid WNOHANG) (exit_status (info p))\<rparr>,
                        trace := trace p @ [Waitpid spawnPid WNOHANG]\<rparr>)"
  using assms by (simp add: other_cmd_parent_def Let_def emit_def)

lemma other_cmd_child_events:
  "\<exists>es. trace (final (other_cmd_child os args p)) = trace (child_start os p) @ es \<and>
        list_all is_launch_call es \<and>
        sigdisp (final (other_cmd_child os args p)) = sigdisp (child_start os p) \<and>
        info (final (other_cmd_child os args p)) = info p \<and>
        stop_background (final (other_cmd_child os args p)) = stop_background p"
  using other_cmd_child_steps [of os p args]
  by (auto simp: steps_def child_start_def)

text \<open>
  Claim C1. For every command whose background flag is set, launched while foreground-only
  mode is on, the launcher runs it as a foreground command: the parent makes a blocking
  \<^verbatim>\<open>waitpid\<close> on that child, stores its status and prints nothing but the report of a
  non-zero status; the child restores the default disposition of the interrupt signal;
  and neither prints the background-start announcement.
\<close>

theorem foreground_only_launch:
  assumes "background (info p) \<noteq> 0" and "foreground_only p"
  shows "(os_fork os \<noteq> - 1 \<and> os_fork os \<noteq> 0 \<longrightarrow>
            other_cmd os args p = Return () (final (other_cmd os args p)) \<and>
            new_events p (final (other_cmd os args p)) =
              [Fork, Waitpid (os_fork os) NoOptions] @
              (if wait_store (os_waitpid os (os_fork os) NoOptions) (exit_status (info p)) \<noteq> 0
               then [Printf (decoded_status os
                        (wait_store (os_waitpid os (os_fork os) NoOptions) (exit_status (info p)))
                        @ '' \<newline>''), Fflush]
               else []) \<and>
            exit_status (info (final (other_cmd os args p))) =
              wait_store (os_waitpid os (os_fork os) NoOptions) (exit_status (info p)) \<and>
            \<not> list_ex is_bg_announcement (new_events p (final (other_cmd os args p)))) \<and>
         (os_fork os = 0 \<longrightarrow>
            take 3 (new_events p (final (other_cmd os args p))) =
              [Fork, Sigaction SIGTSTP SIG_IGN SA_RESTART, Sigaction SIGINT SIG_DFL SA_RESETHAND] \<and>
            sigdisp (final (other_cmd os args p)) SIGINT = (SIG_DFL, SA_RESETHAND) \<and>
            \<not> list_ex is_bg_announcement (new_events p (final (other_cmd os args p))))"
proof (intro conjI impI)
  assume f: "os_fork os \<noteq> - 1 \<and> os_fork os \<noteq> 0"
  have fg: "\<not> (background (info (emit [Fork] p)) \<noteq> 0 \<and> stop_background (emit [Fork] p) = 0)"
    using assms by (simp add: foreground_only_def)
  have eq: "other_cmd os args p = other_cmd_parent os (os_fork os) (emit [Fork] p)"
    using f by (simp add: other_cmd_def Let_def)
  note par = other_cmd_parent_foreground [OF fg, of os "os_fork os"]
  show "other_cmd os args p = Return () (final (other_cmd os args p))"
    by (simp add: eq par Let_def)
  show "new_events p (final (other_cmd os args p)) =
              [Fork, Waitpid (os_fork os) NoOptions] @
              (if wait_store (os_waitpid os (os_fork os) NoOptions) (exit_status (info p)) \<noteq> 0
               then [Printf (decoded_status os
                        (wait_store (os_waitpid os (os_fork os) NoOptions) (exit_status (info p)))
                        @ '' \<newline>''), Fflush]
               else [])"
    by (simp add: eq par Let_def new_events_def)
  then show "\<not> list_ex is_bg_announcement (new_events p (final (other_cmd os args p)))"
    by (simp add: decoded_status_not_announcement del: is_bg_announcement.simps(1))
  show "exit_status (info (final (other_cmd os args p))) =
              wait_store (os_waitpid os (os_fork os) NoOptions) (exit_status (info p))"
    by (simp add: eq par Let_def)
next
  assume f: "os_fork os = 0"
  have eq: "other_cmd os args p = other_cmd_child os args (emit [Fork] p)"
    using f by (simp add: other_cmd_def Let_def)
  have cs: "child_start os (emit [Fork] p) =
              sigaction SIGINT SIG_DFL SA_RESETHAND (custom_IG (emit [Fork] p))"
    using assms by (simp add: child_start_def foreground_only_def)
  from other_cmd_child_events [of os args "emit [Fork] p"] obtain es where
    tr: "trace (final (other_cmd os args p)) =
           trace p @ [Fork, Sigaction SIGTSTP SIG_IGN SA_RESTART,
                      Sigaction SIGINT SIG_DFL SA_RESETHAND] @ es"
    and es: "list_all is_launch_call es"
    and sd: "sigdisp (final (other_cmd os args p)) = sigdisp (child_start os (emit [Fork] p))"
    by (auto simp: eq cs)
  have ne: "new_events p (final (other_cmd os args p)) =
              [Fork, Sigaction SIGTSTP SIG_IGN SA_RESTART, Sigaction SIGINT SIG_DFL SA_RESETHAND] @ es"
    using tr by (simp add: new_events_def)
  show "take 3 (new_events p (final (other_cmd os args p))) =
              [Fork, Sigaction SIGTSTP SIG_IGN SA_RESTART, Sigaction SIGINT SIG_DFL SA_RESETHAND]"
    by (simp add: ne)
  show "sigdisp (final (other_cmd os args p)) SIGINT = (SIG_DFL, SA_RESETHAND)"
    by (simp add: sd cs)
  have "\<not> list_ex is_bg_announcement es"
    using es announcement_is_printf launch_call_not_printf
    by (auto simp: list_all_iff list_ex_iff)
  then show "\<not> list_ex is_bg_announcement (new_events p (final (other_cmd os args p)))"
    by (simp add: ne)
qed

theorem foreground_only_launch_witness:
  "background (info later_proc) \<noteq> 0 \<and> foreground_only later_proc \<and>
   os_fork parent_os \<noteq> - 1 \<and> os_fork parent_os \<noteq> 0 \<and>
   new_events later_proc (final (other_cmd parent_os [''ls''] later_proc)) =
     [Fork, Waitpid 4243 NoOptions, Printf ''exit value 1 \<newline>'', Fflush] \<and>
   exit_status (info (final (other_cmd parent_os [''ls''] later_proc))) = 256 \<and>
   \<not> list_ex is_bg_announcement
        (new_events later_proc (final (other_cmd parent_os [''ls''] later_proc))) \<and>
   os_fork child_os = 0 \<and>
   take 3 (new_events later_proc (final (other_cmd child_os [''ls''] later_proc))) =
     [Fork, Sigaction SIGTSTP SIG_IGN SA_RESTART, Sigaction SIGINT SIG_DFL SA_RESETHAND] \<and>
   \<not> list_ex is_bg_announcement
        (new_events later_proc (final (other_cmd child_os [''ls''] later_proc)))"
proof -
  have h: "background (info later_proc) \<noteq> 0" "foreground_only later_proc"
    by (simp_all add: later_proc_def foreground_only_def)
  have o: "os_fork parent_os \<noteq> - 1 \<and> os_fork parent_os \<noteq> 0" "os_fork child_os = 0"
    by (simp_all add: parent_os_def child_os_def sample_os_def)
  have w: "wait_store (os_waitpid parent_os (os_fork parent_os) NoOptions)
             (exit_status (info later_proc)) = 256" "os_fork parent_os = 4243"
    by (simp_all add: parent_os_def sample_os_def)
  have d: "decoded_status parent_os 256 = ''exit value 1''"
    by (simp add: decoded_status_def parent_os_def sample_os_def string_of_int_def
        string_of_nat.simps)
  from foreground_only_launch [OF h, of parent_os "[''ls'']"]
       foreground_only_launch [OF h, of child_os "[''ls'']"] h o w d
  show ?thesis by simp
qed


text \<open>
  Claim C3, as amended. For every command that runs in the background (background flag
  set, foreground-only mode off), the parent's branch of the launcher makes a non-blocking
  \<^verbatim>\<open>waitpid\<close> (\<^verbatim>\<open>WNOHANG\<close>) on that child and nothing else: it prints nothing. The
  background-start announcement \<^verbatim>\<open>background pid is N\<close> is printed by the child's branch,
  with the child's own pid, as the first thing after it has set \<^verbatim>\<open>SIGTSTP\<close> to be ignored,
  and it is the only thing the child prints.
\<close>

theorem background_launch:
  assumes "background (info p) \<noteq> 0" and "\<not> foreground_only p"
  shows "(os_fork os \<noteq> - 1 \<and> os_fork os \<noteq> 0 \<longrightarrow>
            other_cmd os args p = Return () (final (other_cmd os args p)) \<and>
            new_events p (final (other_cmd os args p)) = [Fork, Waitpid (os_fork os) WNOHANG] \<and>
            exit_status (info (final (other_cmd os args p))) =
              wait_store (os_waitpid os (os_fork os) WNOHANG) (exit_status (info p))) \<and>
         (os_fork os = 0 \<longrightarrow>
            take 4 (new_events p (final (other_cmd os args p))) =
              [Fork, Sigaction SIGTSTP SIG_IGN SA_RESTART,
               Printf (''background pid is '' @ string_of_int (os_getpid os) @ '' \<newline>''),
               Fflush] \<and>
            is_bg_announcement
              (Printf (''background pid is '' @ string_of_int (os_getpid os) @ '' \<newline>'')) \<and>
            \<not> list_ex is_printf (drop 4 (new_events p (final (other_cmd os args p)))))"
proof (intro conjI impI)
  assume f: "os_fork os \<noteq> - 1 \<and> os_fork os \<noteq> 0"
  have bg: "background (info (emit [Fork] p)) \<noteq> 0" "stop_background (emit [Fork] p) = 0"
    using assms by (simp_all add: foreground_only_def)
  have eq: "other_cmd os args p = other_cmd_parent os (os_fork os) (emit [Fork] p)"
    using f by (simp add: other_cmd_def Let_def)
  note par = other_cmd_parent_background [OF bg, of os "os_fork os"]
  show "other_cmd os args p = Return () (final (other_cmd os args p))"
    by (simp add: eq par)
  show "new_events p (final (other_cmd os args p)) = [Fork, Waitpid (os_fork os) WNOHANG]"
    by (simp add: eq par new_events_def)
  show "exit_status (info (final (other_cmd os args p))) =
              wait_store (os_waitpid os (os_fork os) WNOHANG) (exit_status (info p))"
    by (simp add: eq par)
next
  assume f: "os_fork os = 0"
  let ?ann = "Printf (''background pid is '' @ string_of_int (os_getpid os) @ '' \<newline>'')"
  have eq: "other_cmd os args p = other_cmd_child os args (emit [Fork] p)"
    using f by (simp add: other_cmd_def Let_def)
  have cs: "child_start os (emit [Fork] p) = emit [?ann, Fflush] (custom_IG (emit [Fork] p))"
    using assms by (simp add: child_start_def foreground_only_def)
  from other_cmd_child_events [of os args "emit [Fork] p"] obtain es where
    tr: "trace (final (other_cmd os args p)) =
           trace p @ [Fork, Sigaction SIGTSTP SIG_IGN SA_RESTART, ?ann, Fflush] @ es"
    and es: "list_all is_launch_call es"
    by (auto simp: eq cs)
  have ne: "new_events p (final (other_cmd os args p)) =
              [Fork, Sigaction SIGTSTP SIG_IGN SA_RESTART, ?ann, Fflush] @ es"
    using tr by (simp add: new_events_def)
  show "take 4 (new_events p (final (other_cmd os args p))) =
              [Fork, Sigaction SIGTSTP SIG_IGN SA_RESTART, ?ann, Fflush]"
    by (simp add: ne)
  show "is_bg_announcement ?ann" by simp
  have "\<not> list_ex is_printf es"
    using es launch_call_not_printf by (auto simp: list_all_iff list_ex_iff)
  then show "\<not> list_ex is_printf (drop 4 (new_events p (final (other_cmd os args p))))"
    by (simp add: ne)
qed

theorem background_launch_witness:
  "background (info bg_proc) \<noteq> 0 \<and> \<not> foreground_only bg_proc \<and>
   os_fork parent_os \<noteq> - 1 \<and> os_fork parent_os \<noteq> 0 \<and>
   new_events bg_proc (final (other_cmd parent_os [''sleep'', ''5''] bg_proc)) =
     [Fork, Waitpid 4243 WNOHANG] \<and>
   os_fork child_os = 0 \<and>
   take 4 (new_events bg_proc (final (other_cmd child_os [''sleep'', ''5''] bg_proc))) =
     [Fork, Sigaction SIGTSTP SIG_IGN SA_RESTART, Printf ''background pid is 4243 \<newline>'',
      Fflush] \<and>
   \<not> list_ex is_printf
        (drop 4 (new_events bg_proc (final (other_cmd child_os [''sleep'', ''5''] bg_proc))))"
proof -
  have h: "background (info bg_proc) \<noteq> 0" "\<not> foreground_only bg_proc"
    by (simp_all add: bg_proc_def sample_proc_def sample_info_def foreground_only_def)
  have o: "os_fork parent_os \<noteq> - 1 \<and> os_fork parent_os \<noteq> 0" "os_fork child_os = 0"
    "os_fork parent_os = 4243"
    by (simp_all add: parent_os_def child_os_def sample_os_def)
  have d: "string_of_int (os_getpid child_os) = ''4243''"
    by (simp add: child_os_def sample_os_def string_of_int_def string_of_nat.simps)
  from background_launch [OF h, of parent_os "[''sleep'', ''5'']"]
       background_launch [OF h, of child_os "[''sleep'', ''5'']"] h o d
  show ?thesis by simp
qed

text \<open>
  Claim C3 as stated fails: the parent of a background command prints no announcement;
  its only calls are \<^verbatim>\<open>fork\<close> and the non-blocking \<^verbatim>\<open>waitpid\<close>.
\<close>

theorem parent_announcement_counterexample:
  "background (info bg_proc) \<noteq> 0 \<and> \<not> foreground_only bg_proc \<and>
   other_cmd parent_os [''sleep'', ''5''] bg_proc =
     Return () (bg_proc\<lparr>trace := [Fork, Waitpid 4243 WNOHANG]\<rparr>) \<and>
   \<not> list_ex is_printf
        (new_events bg_proc (final (other_cmd parent_os [''sleep'', ''5''] bg_proc)))"
  by (simp add: eval_simps foreground_only_def other_cmd_def other_cmd_parent_def new_events_def)


subsection \<open>The null device\<close>

lemma output_redirection_info: "output_redirection os f p = Return u q \<Longrightarrow> info q = info p"
  using output_redirection_launch [of p os f] by (simp add: steps_def)

lemma input_redirection_info: "input_redirection os f p = Return u q \<Longrightarrow> info q = info p"
  using input_redirection_launch [of p os f] by (simp add: steps_def)

lemma child_background_plain:
  assumes "background (info p) \<noteq> 0" "stop_background p = 0"
    and "input_redirect (info p) = 0" "output_redirect (info p) = 0"
  shows "other_cmd_child os args p =
           and_then (output_redirection os ''/dev/null'' (child_start os p))
             (\<lambda>_ p3. and_then (input_redirection os ''/dev/null'' p3)
                        (\<lambda>_ p4. execvp os args p4))"
proof -
  let ?p2 = "child_start os p"
  have i2: "info ?p2 = info p" using assms by (simp add: child_start_def)
  show ?thesis
  proof (cases "output_redirection os ''/dev/null'' ?p2")
    case (Return u q)
    have iq: "info q = info p" using output_redirection_info [OF Return] i2 by simp
    show ?thesis
    proof (cases "input_redirection os ''/dev/null'' q")
      case (Return u' q')
      have "info q' = info p" using input_redirection_info [OF Return] iq by simp
      with assms iq Return \<open>output_redirection os ''/dev/null'' ?p2 = Return u q\<close>
      show ?thesis
        by (simp add: other_cmd_child_def child_start_def Let_def)
    qed (use assms iq \<open>output_redirection os ''/dev/null'' ?p2 = Return u q\<close>
          in \<open>simp_all add: other_cmd_child_def child_start_def Let_def\<close>)
  qed (use assms in \<open>simp_all add: other_cmd_child_def child_start_def Let_def\<close>)
qed

lemma child_foreground_plain:
  assumes "\<not> (background (info p) \<noteq> 0 \<and> stop_background p = 0)"
    and "input_redirect (info p) = 0" "output_redirect (info p) = 0"
  shows "other_cmd_child os args p = execvp os args (child_start os p)"
  using assms by (auto simp: other_cmd_child_def child_start_def Let_def)

lemma lowest_free_cong:
  "(\<And>n. (fdtab q n = None) = (fdtab p n = None)) \<Longrightarrow> lowest_free os q = lowest_free os p"
  by (simp add: lowest_free_def)

lemma execvp_events:
  "\<exists>es. trace (final (execvp os args p :: unit outcome)) = trace p @ es \<and>
        \<not> list_ex is_redirection_call es"
  by (auto simp: execvp_def split: list.splits)


lemma child_start_fdtab [simp]: "fdtab (child_start os p) = fdtab p"
  by (simp add: child_start_def)

text \<open>
  The null-device default where it works. In the child of a command with neither
  redirection requested: when the command runs in the background and the child's
  descriptors 0 and 1 are open, it reaches \<^verbatim>\<open>execvp\<close> only with standard input and
  standard output bound to \<^verbatim>\<open>/dev/null\<close> (all other descriptors as before), and it does
  reach it when the calls of \<^verbatim>\<open>open\<close> and \<^verbatim>\<open>dup2\<close> succeed; when the command runs in the
  foreground, the child makes no call of \<^verbatim>\<open>open\<close>, \<^verbatim>\<open>dup2\<close> or \<^verbatim>\<open>close\<close> and its descriptor
  table is unchanged. The condition on the descriptors cannot be dropped, as the failing
  input below shows.
\<close>

theorem null_device_default:
  assumes "input_redirect (info p) = 0" and "output_redirect (info p) = 0"
    and "os_fork os = 0"
  shows
    "(background (info p) \<noteq> 0 \<and> \<not> foreground_only p \<and> fdtab p 0 \<noteq> None \<and> fdtab p 1 \<noteq> None \<longrightarrow>
        (other_cmd os args p = Exec a argv q \<or> other_cmd os args p = Exit 2 q \<longrightarrow>
           fdtab q = (fdtab p)(0 := Some (''/dev/null'', O_RDONLY),
                              1 := Some (''/dev/null'', O_WRONLY_CREAT_TRUNC))) \<and>
        (os_open_ok os ''/dev/null'' O_WRONLY_CREAT_TRUNC \<and> os_open_ok os ''/dev/null'' O_RDONLY \<and>
         lowest_free os p = Some fd \<and> os_dup2_ok os fd 1 \<and> os_dup2_ok os fd 0 \<and>
         args = a0 # rest \<and> os_exec_ok os a0 args \<longrightarrow>
           other_cmd os args p = Exec a0 args (final (other_cmd os args p)) \<and>
           new_events p (final (other_cmd os args p)) =
             [Fork, Sigaction SIGTSTP SIG_IGN SA_RESTART,
              Printf (''background pid is '' @ string_of_int (os_getpid os) @ '' \<newline>''), Fflush,
              Open ''/dev/null'' O_WRONLY_CREAT_TRUNC, Dup2 fd 1, Close fd,
              Open ''/dev/null'' O_RDONLY, Dup2 fd 0, Close fd,
              Execvp (Some a0) args])) \<and>
     (\<not> (background (info p) \<noteq> 0 \<and> \<not> foreground_only p) \<longrightarrow>
        fdtab (final (other_cmd os args p)) = fdtab p \<and>
        \<not> list_ex is_redirection_call (new_events p (final (other_cmd os args p))))"
proof (intro conjI impI)
  let ?p0 = "emit [Fork] p"
  let ?p2 = "child_start os ?p0"
  have eq: "other_cmd os args p = other_cmd_child os args ?p0"
    using assms by (simp add: other_cmd_def Let_def)
  {
    assume bg: "background (info p) \<noteq> 0 \<and> \<not> foreground_only p \<and> fdtab p 0 \<noteq> None \<and> fdtab p 1 \<noteq> None"
    then have plain: "other_cmd os args p =
           and_then (output_redirection os ''/dev/null'' ?p2)
             (\<lambda>_ p3. and_then (input_redirection os ''/dev/null'' p3)
                        (\<lambda>_ p4. execvp os args p4))"
      using assms child_background_plain [of ?p0 os args]
      by (simp add: eq foreground_only_def)
    {
      assume res: "other_cmd os args p = Exec a argv q \<or> other_cmd os args p = Exit 2 q"
      from output_redirection_outcome [of os "''/dev/null''" ?p2] res plain
      obtain q1 where o1: "output_redirection os ''/dev/null'' ?p2 = Return () q1"
        by auto
      have f1: "fdtab q1 = (fdtab p)(1 := Some (''/dev/null'', O_WRONLY_CREAT_TRUNC))"
        using output_redirection_fdtab [OF o1] bg by simp
      from input_redirection_outcome [of os "''/dev/null''" q1] res plain o1
      obtain q2 where o2: "input_redirection os ''/dev/null'' q1 = Return () q2"
        by auto
      have f2: "fdtab q2 = (fdtab q1)(0 := Some (''/dev/null'', O_RDONLY))"
        using input_redirection_fdtab [OF o2] f1 bg by simp
      have "other_cmd os args p = execvp os args q2"
        by (simp add: plain o1 o2)
      with res have "q = final (execvp os args q2 :: unit outcome)" by auto
      then have "fdtab q = fdtab q2" by (simp add: execvp_fdtab)
      with f1 f2 show "fdtab q = (fdtab p)(0 := Some (''/dev/null'', O_RDONLY),
                              1 := Some (''/dev/null'', O_WRONLY_CREAT_TRUNC))"
        by (auto simp: fun_eq_iff)
    }
    {
      assume ok: "os_open_ok os ''/dev/null'' O_WRONLY_CREAT_TRUNC \<and>
         os_open_ok os ''/dev/null'' O_RDONLY \<and>
         lowest_free os p = Some fd \<and> os_dup2_ok os fd 1 \<and> os_dup2_ok os fd 0 \<and>
         args = a0 # rest \<and> os_exec_ok os a0 args"
      let ?ann = "Printf (''background pid is '' @ string_of_int (os_getpid os) @ '' \<newline>'')"
      have cs: "?p2 = emit [?ann, Fflush] (custom_IG ?p0)"
        using bg by (simp add: child_start_def foreground_only_def)
      have fd: "fdtab p fd = None" "fd \<noteq> 0" "fd \<noteq> 1"
        using ok bg lowest_free_Some [of os p fd] by (auto intro!: gr0I)
      have lf2: "lowest_free os ?p2 = Some fd"
        using ok lowest_free_cong [of ?p2 p os] by simp
      define q1 where "q1 = ?p2\<lparr>fdtab := (fdtab p)(1 := Some (''/dev/null'', O_WRONLY_CREAT_TRUNC)),
          trace := trace ?p2 @ [Open ''/dev/null'' O_WRONLY_CREAT_TRUNC, Dup2 fd 1, Close fd]\<rparr>"
      have o1: "output_redirection os ''/dev/null'' ?p2 = Return () q1"
        using ok lf2 fd
        by (auto simp: output_redirection_def sys_open_def sys_dup2_def sys_close_def Let_def
              q1_def emit_def fun_eq_iff)
      have lf1: "lowest_free os q1 = Some fd"
        using ok bg lowest_free_cong [of q1 p os] by (simp add: q1_def)
      define q2 where "q2 = q1\<lparr>fdtab := (fdtab q1)(0 := Some (''/dev/null'', O_RDONLY)),
          trace := trace q1 @ [Open ''/dev/null'' O_RDONLY, Dup2 fd 0, Close fd]\<rparr>"
      have fq1: "fdtab q1 fd = None" using fd by (simp add: q1_def)
      have o2: "input_redirection os ''/dev/null'' q1 = Return () q2"
        using ok lf1 fd fq1
        by (auto simp: input_redirection_def sys_open_def sys_dup2_def sys_close_def Let_def
              q2_def emit_def fun_eq_iff)
      have "other_cmd os args p = execvp os args q2"
        by (simp add: plain o1 o2)
      then have ex: "other_cmd os args p = Exec a0 args (emit [Execvp (Some a0) args] q2)"
        using ok by (auto simp: execvp_def)
      show "other_cmd os args p = Exec a0 args (final (other_cmd os args p))"
        by (simp add: ex)
      show "new_events p (final (other_cmd os args p)) =
             [Fork, Sigaction SIGTSTP SIG_IGN SA_RESTART, ?ann, Fflush,
              Open ''/dev/null'' O_WRONLY_CREAT_TRUNC, Dup2 fd 1, Close fd,
              Open ''/dev/null'' O_RDONLY, Dup2 fd 0, Close fd,
              Execvp (Some a0) args]"
        by (simp add: ex q2_def q1_def cs new_events_def)
    }
  }
  {
    assume fg: "\<not> (background (info p) \<noteq> 0 \<and> \<not> foreground_only p)"
    then have plain: "other_cmd os args p = execvp os args ?p2"
      using assms child_foreground_plain [of ?p0 os args]
      by (simp add: eq foreground_only_def)
    show "fdtab (final (other_cmd os args p)) = fdtab p"
      by (simp add: plain execvp_fdtab)
    have cs: "trace ?p2 = trace p @ [Fork, Sigaction SIGTSTP SIG_IGN SA_RESTART,
                Sigaction SIGINT SIG_DFL SA_RESETHAND]"
      using fg by (auto simp: child_start_def foreground_only_def)
    from execvp_events [of os args ?p2] obtain es where
      "trace (final (other_cmd os args p)) = trace ?p2 @ es" "\<not> list_ex is_redirection_call es"
      by (auto simp: plain)
    then show "\<not> list_ex is_redirection_call (new_events p (final (other_cmd os args p)))"
      by (simp add: cs new_events_def)
  }
qed


theorem null_device_default_witness:
  "input_redirect (info bg_proc) = 0 \<and> output_redirect (info bg_proc) = 0 \<and>
   os_fork child_os = 0 \<and> background (info bg_proc) \<noteq> 0 \<and> \<not> foreground_only bg_proc \<and>
   fdtab bg_proc 0 \<noteq> None \<and> fdtab bg_proc 1 \<noteq> None \<and>
   lowest_free child_os bg_proc = Some 3 \<and>
   other_cmd child_os [''ls''] bg_proc =
     Exec ''ls'' [''ls''] (final (other_cmd child_os [''ls''] bg_proc)) \<and>
   fdtab (final (other_cmd child_os [''ls''] bg_proc)) 0 = Some (''/dev/null'', O_RDONLY) \<and>
   fdtab (final (other_cmd child_os [''ls''] bg_proc)) 1 =
     Some (''/dev/null'', O_WRONLY_CREAT_TRUNC) \<and>
   fdtab (final (other_cmd child_os [''ls''] bg_proc)) 2 = Some (''/dev/tty'', O_RDWR) \<and>
   new_events bg_proc (final (other_cmd child_os [''ls''] bg_proc)) =
     [Fork, Sigaction SIGTSTP SIG_IGN SA_RESTART, Printf ''background pid is 4243 \<newline>'',
      Fflush, Open ''/dev/null'' O_WRONLY_CREAT_TRUNC, Dup2 3 1, Close 3,
      Open ''/dev/null'' O_RDONLY, Dup2 3 0, Close 3, Execvp (Some ''ls'') [''ls'']] \<and>
   input_redirect (info sample_proc) = 0 \<and> output_redirect (info sample_proc) = 0 \<and>
   \<not> (background (info sample_proc) \<noteq> 0 \<and> \<not> foreground_only sample_proc) \<and>
   fdtab (final (other_cmd child_os [''ls''] sample_proc)) = fdtab sample_proc \<and>
   \<not> list_ex is_redirection_call
        (new_events sample_proc (final (other_cmd child_os [''ls''] sample_proc)))"
proof -
  have h: "input_redirect (info bg_proc) = 0" "output_redirect (info bg_proc) = 0"
    "os_fork child_os = 0" "input_redirect (info sample_proc) = 0"
    "output_redirect (info sample_proc) = 0"
    by (simp_all add: eval_simps)
  have b: "background (info bg_proc) \<noteq> 0" "\<not> foreground_only bg_proc"
    "fdtab bg_proc 0 \<noteq> None" "fdtab bg_proc 1 \<noteq> None"
    "fdtab bg_proc 2 = Some (''/dev/tty'', O_RDWR)"
    "\<not> (background (info sample_proc) \<noteq> 0 \<and> \<not> foreground_only sample_proc)"
    by (simp_all add: eval_simps foreground_only_def)
  have l: "lowest_free child_os bg_proc = Some 3"
    by (simp add: lowest_free_def eval_simps upt_rec)
  have o: "os_open_ok child_os ''/dev/null'' O_WRONLY_CREAT_TRUNC"
    "os_open_ok child_os ''/dev/null'' O_RDONLY" "os_dup2_ok child_os 3 1"
    "os_dup2_ok child_os 3 0" "os_exec_ok child_os ''ls'' [''ls'']"
    by (simp_all add: eval_simps)
  have d: "string_of_int (os_getpid child_os) = ''4243''"
    by (simp add: child_os_def sample_os_def string_of_int_def string_of_nat.simps)
  from null_device_default [OF h(1,2,3), where args = "[''ls'']" and a = "''ls''"
        and argv = "[''ls'']" and q = "final (other_cmd child_os [''ls''] bg_proc)"
        and fd = 3 and ?a0.0 = "''ls''" and rest = "[]"]
       null_device_default [OF h(4,5,3), where args = "[''ls'']" and a = "''ls''"
        and argv = "[''ls'']" and q = "final (other_cmd child_os [''ls''] bg_proc)"
        and fd = 3 and ?a0.0 = "''ls''" and rest = "[]"]
       h b l o d
  show ?thesis by simp
qed

text \<open>
  Claim C4 at a failing input: the background command \<^verbatim>\<open>ls &\<close>, with neither redirection,
  in an interpreter that was started with standard output closed. In the child,
  \<^verbatim>\<open>open("/dev/null")\<close> returns descriptor 1, \<^verbatim>\<open>dup2(1, 1)\<close> changes nothing, and the
  \<^verbatim>\<open>close(fd)\<close> that ends \<^verbatim>\<open>output_redirection\<close> closes descriptor 1 again: the child
  reaches \<^verbatim>\<open>execvp\<close> with standard output closed, not bound to the null device (standard
  input is bound to it).
\<close>

theorem closed_stdout_stays_closed:
  "background (info closed_stdout_proc) \<noteq> 0 \<and> \<not> foreground_only closed_stdout_proc \<and>
   input_redirect (info closed_stdout_proc) = 0 \<and> output_redirect (info closed_stdout_proc) = 0 \<and>
   other_cmd child_os [''ls''] closed_stdout_proc =
     Exec ''ls'' [''ls''] (final (other_cmd child_os [''ls''] closed_stdout_proc)) \<and>
   new_events closed_stdout_proc (final (other_cmd child_os [''ls''] closed_stdout_proc)) =
     [Fork, Sigaction SIGTSTP SIG_IGN SA_RESTART, Printf ''background pid is 4243 \<newline>'',
      Fflush, Open ''/dev/null'' O_WRONLY_CREAT_TRUNC, Dup2 1 1, Close 1,
      Open ''/dev/null'' O_RDONLY, Dup2 1 0, Close 1, Execvp (Some ''ls'') [''ls'']] \<and>
   fdtab (final (other_cmd child_os [''ls''] closed_stdout_proc)) 0 =
     Some (''/dev/null'', O_RDONLY) \<and>
   fdtab (final (other_cmd child_os [''ls''] closed_stdout_proc)) 1 = None"
proof -
  have l: "lowest_free child_os q = Some 1"
    if "fdtab q 0 \<noteq> None" "fdtab q 1 = None" for q
    using that by (simp add: lowest_free_def child_os_def sample_os_def upt_rec)
  have o: "os_open_ok child_os f fl" "os_dup2_ok child_os a b" "os_fork child_os = 0"
    "os_exec_ok child_os c d" for f fl a b c d
    by (simp_all add: child_os_def sample_os_def)
  have g: "string_of_int (os_getpid child_os) = ''4243''"
    by (simp add: child_os_def sample_os_def string_of_int_def string_of_nat.simps)
  have i: "background (info closed_stdout_proc) = 1" "stop_background closed_stdout_proc = 0"
    "input_redirect (info closed_stdout_proc) = 0" "output_redirect (info closed_stdout_proc) = 0"
    "fdtab closed_stdout_proc 0 = Some (''/dev/tty'', O_RDWR)" "fdtab closed_stdout_proc 1 = None"
    "trace closed_stdout_proc = []"
    by (simp_all add: closed_stdout_proc_def bg_proc_def sample_proc_def sample_info_def)
  have out: "output_redirection child_os f q =
      Return () (q\<lparr>trace := trace q @ [Open f O_WRONLY_CREAT_TRUNC, Dup2 1 1, Close 1]\<rparr>)"
    if "fdtab q 0 \<noteq> None" "fdtab q 1 = None" for q f
    using that l [OF that] o
    by (auto simp: output_redirection_def sys_open_def sys_dup2_def sys_close_def Let_def emit_def
          fun_eq_iff intro!: proc.equality)
  have inp: "input_redirection child_os f q =
      Return () (q\<lparr>fdtab := (fdtab q)(0 := Some (f, O_RDONLY)),
                   trace := trace q @ [Open f O_RDONLY, Dup2 1 0, Close 1]\<rparr>)"
    if "fdtab q 0 \<noteq> None" "fdtab q 1 = None" for q f
    using that l [OF that] o
    by (auto simp: input_redirection_def sys_open_def sys_dup2_def sys_close_def Let_def emit_def
          fun_eq_iff intro!: proc.equality)
  have plain: "other_cmd child_os [''ls''] closed_stdout_proc =
           and_then (output_redirection child_os ''/dev/null''
                       (child_start child_os (emit [Fork] closed_stdout_proc)))
             (\<lambda>_ p3. and_then (input_redirection child_os ''/dev/null'' p3)
                        (\<lambda>_ p4. execvp child_os [''ls''] p4))"
    using child_background_plain [of "emit [Fork] closed_stdout_proc" child_os "[''ls'']"] i o
    by (simp add: other_cmd_def Let_def)
  have cs: "child_start child_os (emit [Fork] closed_stdout_proc) =
      closed_stdout_proc\<lparr>sigdisp := (sigdisp closed_stdout_proc)(SIGTSTP := (SIG_IGN, SA_RESTART)),
        trace := [Fork, Sigaction SIGTSTP SIG_IGN SA_RESTART,
                  Printf ''background pid is 4243 \<newline>'', Fflush]\<rparr>"
    using i g by (simp add: child_start_def custom_IG_def sigaction_def emit_def)
  let ?c = "child_start child_os (emit [Fork] closed_stdout_proc)"
  let ?q1 = "?c\<lparr>trace := trace ?c @ [Open ''/dev/null'' O_WRONLY_CREAT_TRUNC, Dup2 1 1, Close 1]\<rparr>"
  let ?q2 = "?q1\<lparr>fdtab := (fdtab ?q1)(0 := Some (''/dev/null'', O_RDONLY)),
                 trace := trace ?q1 @ [Open ''/dev/null'' O_RDONLY, Dup2 1 0, Close 1]\<rparr>"
  have fc: "fdtab ?c 0 \<noteq> None" "fdtab ?c 1 = None"
    using i by simp_all
  have o1: "output_redirection child_os ''/dev/null'' ?c = Return () ?q1"
    by (rule out [OF fc])
  have f1: "fdtab ?q1 0 \<noteq> None" "fdtab ?q1 1 = None"
    using i by simp_all
  have o2: "input_redirection child_os ''/dev/null'' ?q1 = Return () ?q2"
    by (rule inp [OF f1])
  have e: "other_cmd child_os [''ls''] closed_stdout_proc =
             Exec ''ls'' [''ls''] (emit [Execvp (Some ''ls'') [''ls'']] ?q2)"
    by (simp only: plain o1 o2 and_then.simps execvp_def list.case o if_True)
  have r: "other_cmd child_os [''ls''] closed_stdout_proc =
      Exec ''ls'' [''ls'']
        (closed_stdout_proc\<lparr>fdtab := (fdtab closed_stdout_proc)(0 := Some (''/dev/null'', O_RDONLY)),
           sigdisp := (sigdisp closed_stdout_proc)(SIGTSTP := (SIG_IGN, SA_RESTART)),
           trace := [Fork, Sigaction SIGTSTP SIG_IGN SA_RESTART,
                     Printf ''background pid is 4243 \<newline>'', Fflush,
                     Open ''/dev/null'' O_WRONLY_CREAT_TRUNC, Dup2 1 1, Close 1,
                     Open ''/dev/null'' O_RDONLY, Dup2 1 0, Close 1,
                     Execvp (Some ''ls'') [''ls'']]\<rparr>)"
    unfolding e cs by (simp add: emit_def)
  show ?thesis
    using i by (simp add: r foreground_only_def new_events_def)
qed

subsection \<open>Failures of redirection\<close>

lemma open_failure_exits_1:
  "\<not> os_open_ok os f O_WRONLY_CREAT_TRUNC \<Longrightarrow>
     output_redirection os f p =
       Exit 1 (emit [Open f O_WRONLY_CREAT_TRUNC, Perror ''Output file could not be opened \<newline>''] p)"
  "\<not> os_open_ok os f O_RDONLY \<Longrightarrow>
     input_redirection os f p =
       Exit 1 (emit [Open f O_RDONLY, Perror ''Input file could not be opened \<newline>''] p)"
  by (simp_all add: output_redirection_def input_redirection_def sys_open_def Let_def emit_def)

lemma output_dup2_failure_exits_1:
  "os_open_ok os f O_WRONLY_CREAT_TRUNC \<Longrightarrow> lowest_free os p = Some fd \<Longrightarrow>
   \<not> os_dup2_ok os fd 1 \<Longrightarrow>
   output_redirection os f p =
     Exit 1 (emit [Open f O_WRONLY_CREAT_TRUNC, Dup2 fd 1,
                   Perror ''Output file could not be redirected'']
               (p\<lparr>fdtab := (fdtab p)(fd := Some (f, O_WRONLY_CREAT_TRUNC))\<rparr>))"
  by (simp add: output_redirection_def sys_open_def sys_dup2_def Let_def emit_def)

lemma input_dup2_failure_exits_0:
  "os_open_ok os f O_RDONLY \<Longrightarrow> lowest_free os p = Some fd \<Longrightarrow> \<not> os_dup2_ok os fd 0 \<Longrightarrow>
   input_redirection os f p =
     Exit 0 (emit [Open f O_RDONLY, Dup2 fd 0, Perror ''Input file could not be redirected'']
               (p\<lparr>fdtab := (fdtab p)(fd := Some (f, O_RDONLY))\<rparr>))"
  by (simp add: input_redirection_def sys_open_def sys_dup2_def Let_def emit_def)

text \<open>
  Claim C6 at a failing input: the command \<^verbatim>\<open>cat < in.txt\<close> in a child whose \<^verbatim>\<open>dup2\<close> fails.
  \<^verbatim>\<open>input_redirection\<close> prints its diagnostic and then calls \<^verbatim>\<open>exit(0)\<close>: the child ends
  with status 0, where \<^verbatim>\<open>output_redirection\<close> ends with status 1 in the same situation.
\<close>

theorem input_dup2_failure_status:
  "input_redirection dup2_fails_os ''in.txt'' sample_proc =
     Exit 0 (sample_proc\<lparr>fdtab := (fdtab sample_proc)(3 := Some (''in.txt'', O_RDONLY)),
                         trace := [Open ''in.txt'' O_RDONLY, Dup2 3 0,
                                   Perror ''Input file could not be redirected'']\<rparr>) \<and>
   output_redirection dup2_fails_os ''out.txt'' sample_proc =
     Exit 1 (sample_proc\<lparr>fdtab := (fdtab sample_proc)(3 := Some (''out.txt'', O_WRONLY_CREAT_TRUNC)),
                         trace := [Open ''out.txt'' O_WRONLY_CREAT_TRUNC, Dup2 3 1,
                                   Perror ''Output file could not be redirected'']\<rparr>) \<and>
   small_shell_body dup2_fails_os ''cat < in.txt\<newline>'' sample_proc =
     Exit 0 (final (small_shell_body dup2_fails_os ''cat < in.txt\<newline>'' sample_proc)) \<and>
   trace (final (small_shell_body dup2_fails_os ''cat < in.txt\<newline>'' sample_proc)) =
     [Printf '': '', Fflush, Fork, Sigaction SIGTSTP SIG_IGN SA_RESTART,
      Sigaction SIGINT SIG_DFL SA_RESETHAND, Open ''in.txt'' O_RDONLY, Dup2 3 0,
      Perror ''Input file could not be redirected'']"
proof -
  have l: "lowest_free dup2_fails_os q = Some 3" if "fdtab q = fdtab sample_proc" for q
    using that by (simp add: lowest_free_def dup2_fails_os_def eval_simps upt_rec)
  have o: "os_open_ok dup2_fails_os f fl" "\<not> os_dup2_ok dup2_fails_os a b"
    "os_fork dup2_fails_os = 0" for f fl a b
    by (simp_all add: dup2_fails_os_def eval_simps)
  have i: "input_redirection dup2_fails_os f q =
     Exit 0 (emit [Open f O_RDONLY, Dup2 3 0, Perror ''Input file could not be redirected'']
               (q\<lparr>fdtab := (fdtab q)(3 := Some (f, O_RDONLY))\<rparr>))"
    if "fdtab q = fdtab sample_proc" for q f
    using input_dup2_failure_exits_0 [OF o(1) l [OF that] o(2)] .
  have p: "parse_line dup2_fails_os ''cat < in.txt'' q =
             Return [''cat''] (q\<lparr>info := (info q)\<lparr>input_redirect := 1, input_filename := ''in.txt''\<rparr>\<rparr>)"
    for q
    by (simp add: parse_line_def parse_rest.simps strtok_r_def Let_def)
  have g: "get_input ''cat < in.txt\<newline>'' q = (''cat < in.txt'', emit [Printf '': '', Fflush] q)" for q
    by (simp add: get_input_def strtok_r_def Let_def)
  have b: "small_shell_body dup2_fails_os ''cat < in.txt\<newline>'' sample_proc =
     Exit 0 (sample_proc\<lparr>info := sample_info\<lparr>input_redirect := 1, input_filename := ''in.txt''\<rparr>,
        fdtab := (fdtab sample_proc)(3 := Some (''in.txt'', O_RDONLY)),
        sigdisp := (sigdisp sample_proc)(SIGTSTP := (SIG_IGN, SA_RESTART), SIGINT := (SIG_DFL, SA_RESETHAND)),
        trace := [Printf '': '', Fflush, Fork, Sigaction SIGTSTP SIG_IGN SA_RESTART,
      Sigaction SIGINT SIG_DFL SA_RESETHAND, Open ''in.txt'' O_RDONLY, Dup2 3 0,
      Perror ''Input file could not be redirected'']\<rparr>)"
    by (simp add: small_shell_body_def g p execute_cmd_def other_cmd_def other_cmd_child_def o i
        Let_def sample_proc_def sample_info_def init_shell_info_def emit_def)
  have t: "trace sample_proc = []" by (simp add: sample_proc_def)
  show ?thesis
    using i [of sample_proc "''in.txt''"]
      output_dup2_failure_exits_1 [OF o(1) l o(2), of sample_proc "''out.txt''"]
    by (simp add: b emit_def t)
qed

subsection \<open>The first command of a session\<close>

text \<open>
  Claim C8 at a failing input: a session whose first line is \<^verbatim>\<open>status\<close>. \<^verbatim>\<open>small_shell\<close>
  declares \<^verbatim>\<open>struct shell_info info\<close> without an initialiser and \<^verbatim>\<open>init_shell_info\<close> does
  not assign \<^verbatim>\<open>exit_status\<close>, so the built-in decodes whatever the stack held: a different
  report for each content.
\<close>

theorem first_status_reads_stack:
  "trace (final (small_shell stack fds [Line sample_os ''status\<newline>''])) =
     [Sigaction SIGINT SIG_IGN SA_RESTART, Sigaction SIGTSTP Handler_handle_SIG SA_RESTART,
      Printf ''small c-shell, enter shell commands like ls or echo \<newline>'', Fflush,
      Printf '': '', Fflush,
      Printf (decoded_status sample_os (exit_status stack) @ '' \<newline>''), Fflush,
      Waitpid (- 1) WNOHANG] \<and>
   decoded_status sample_os 0 = ''exit value 0'' \<and>
   decoded_status sample_os 256 = ''exit value 1'' \<and>
   decoded_status sample_os 2 = ''terminated by signal 2''"
proof -
  have g: "get_input ''status\<newline>'' q = (''status'', emit [Printf '': '', Fflush] q)" for q
    by (simp add: get_input_def strtok_r_def Let_def)
  have p: "parse_line sample_os ''status'' q = Return [''status''] q" for q
    by (simp add: parse_line_def parse_rest.simps strtok_r_def Let_def)
  have r: "os_reapable sample_os = []" by (simp add: sample_os_def)
  have "trace (final (small_shell stack fds [Line sample_os ''status\<newline>''])) =
     [Sigaction SIGINT SIG_IGN SA_RESTART, Sigaction SIGTSTP Handler_handle_SIG SA_RESTART,
      Printf ''small c-shell, enter shell commands like ls or echo \<newline>'', Fflush,
      Printf '': '', Fflush,
      Printf (decoded_status sample_os (exit_status stack) @ '' \<newline>''), Fflush,
      Waitpid (- 1) WNOHANG]"
    by (simp add: small_shell_def small_shell_body_def g p r execute_cmd_def Let_def
        custom_SIG_def custom_SIGTSTP_def)
  moreover have "decoded_status sample_os 0 = ''exit value 0''"
    "decoded_status sample_os 256 = ''exit value 1''"
    "decoded_status sample_os 2 = ''terminated by signal 2''"
    by (simp_all add: decoded_status_def sample_os_def string_of_int_def string_of_nat.simps)
  ultimately show ?thesis by simp
qed

subsection \<open>The suspend signal\<close>

text \<open>No function but the handler writes the flag.\<close>

lemma handle_SIG_flag: "stop_background (handle_SIG signo p) = 0 \<or> stop_background (handle_SIG signo p) = 1"
  by (simp add: handle_SIG_def)


lemma flag_and_then:
  assumes "stop_background (final m) = stop_background p"
    and "\<And>x q. m = Return x q \<Longrightarrow> stop_background (final (f x q)) = stop_background q"
  shows "stop_background (final (and_then m f)) = stop_background p"
  using assms by (cases m) auto

lemma reap_flag [simp]: "stop_background (reap os rs p) = stop_background p"
  by (induction rs arbitrary: p) (simp_all add: Let_def)

lemma my_cd_flag [simp]: "stop_background (my_cd os args p) = stop_background p"
  by (simp add: my_cd_def chdir_def split: list.splits)

lemma other_cmd_flag [simp]: "stop_background (final (other_cmd os args p)) = stop_background p"
  using other_cmd_child_events [of os args "emit [Fork] p"]
  by (auto simp: other_cmd_def other_cmd_parent_def Let_def)

lemma execute_cmd_flag [simp]:
  "stop_background (final (execute_cmd os args p)) = stop_background p"
proof (cases args)
  case Nil
  then show ?thesis by (simp add: execute_cmd_def)
next
  case (Cons a0 rest)
  show ?thesis
    unfolding execute_cmd_def Cons list.case
    by (rule flag_and_then) (auto simp: my_exit_def intro!: flag_and_then)
qed

lemma small_shell_body_flag [simp]:
  "stop_background (final (small_shell_body os buf p)) = stop_background p"
proof -
  obtain line p2 where g: "get_input buf (init_shell_info p) = (line, p2)"
    by (cases "get_input buf (init_shell_info p)")
  then have p2: "stop_background p2 = stop_background p"
    using get_input_simps(3) [of buf "init_shell_info p"] by simp
  have "stop_background (final (and_then (parse_line os line p2) (execute_cmd os)))
          = stop_background p2"
    by (rule flag_and_then) (simp_all add: parse_line_frame)
  then show ?thesis by (simp add: small_shell_body_def g p2)
qed

lemma small_shell_loop_flag:
  "stop_background p = 0 \<or> stop_background p = 1 \<Longrightarrow>
   stop_background (final (small_shell_loop ins p)) = 0 \<or>
   stop_background (final (small_shell_loop ins p)) = 1"
proof (induction ins p rule: small_shell_loop.induct)
  case (1 p)
  then show ?case by simp
next
  case (2 ins p)
  then show ?case using handle_SIG_flag [of SIGTSTP p] by simp
next
  case (3 os buf ins p)
  show ?case
  proof (cases "small_shell_body os buf p")
    case (Return status p1)
    then have "stop_background p1 = stop_background p"
      using small_shell_body_flag [of os buf p] by simp
    with 3 Return show ?thesis by auto
  next
    case (Exit n q)
    then have "stop_background q = stop_background p"
      using small_shell_body_flag [of os buf p] by simp
    with 3 Exit show ?thesis by simp
  next
    case (Exec a argv q)
    then have "stop_background q = stop_background p"
      using small_shell_body_flag [of os buf p] by simp
    with 3 Exec show ?thesis by simp
  next
    case (Fault e q)
    then have "stop_background q = stop_background p"
      using small_shell_body_flag [of os buf p] by simp
    with 3 Fault show ?thesis by simp
  qed
qed

lemma small_shell_flag:
  "stop_background (final (small_shell stack fds ins)) = 0 \<or>
   stop_background (final (small_shell stack fds ins)) = 1"
  unfolding small_shell_def Let_def
  by (rule small_shell_loop_flag) (simp add: custom_SIG_def custom_SIGTSTP_def)

text \<open>
  Claim C2. For every state of the interpreter, a delivery of the suspend signal while
  foreground-only mode is off turns it on and writes the message
  \<^verbatim>\<open>Entering foreground-only mode (& is now ignored)\<close> (followed by a space and a newline);
  a delivery while it is on turns it off and writes \<^verbatim>\<open>Exiting foreground-only mode\<close>
  (followed by a space and a newline). The handler leaves the flag at 0 or 1: two
  deliveries restore the mode, and restore the flag's value when it was 0 or 1, as it is
  in every state a session reaches (whatever lines and signals it receives). Nothing else
  of the state changes.
\<close>

theorem handle_SIG_toggle:
  "(\<not> foreground_only p \<longrightarrow>
      foreground_only (handle_SIG signo p) \<and> stop_background (handle_SIG signo p) = 1 \<and>
      trace (handle_SIG signo p) = trace p @
        [Write 1 (''Entering foreground-only mode (& is now ignored)'' @ '' \<newline>''), Fflush]) \<and>
   (foreground_only p \<longrightarrow>
      \<not> foreground_only (handle_SIG signo p) \<and> stop_background (handle_SIG signo p) = 0 \<and>
      trace (handle_SIG signo p) = trace p @
        [Write 1 (''Exiting foreground-only mode'' @ '' \<newline>''), Fflush]) \<and>
   foreground_only (handle_SIG signo' (handle_SIG signo p)) = foreground_only p \<and>
   (stop_background p = 0 \<or> stop_background p = 1 \<longrightarrow>
      stop_background (handle_SIG signo' (handle_SIG signo p)) = stop_background p) \<and>
   info (handle_SIG signo p) = info p \<and> fdtab (handle_SIG signo p) = fdtab p \<and>
   sigdisp (handle_SIG signo p) = sigdisp p \<and>
   (stop_background (final (small_shell stack fds ins)) = 0 \<or>
    stop_background (final (small_shell stack fds ins)) = 1)"
  using small_shell_flag [of stack fds ins]
  by (simp add: handle_SIG_def foreground_only_def STDOUT_FILENO_def)

theorem handle_SIG_toggle_witness:
  "\<not> foreground_only sample_proc \<and>
   foreground_only (handle_SIG SIGTSTP sample_proc) \<and>
   trace (handle_SIG SIGTSTP sample_proc) =
     [Write 1 ''Entering foreground-only mode (& is now ignored) \<newline>'', Fflush] \<and>
   \<not> foreground_only (handle_SIG SIGTSTP (handle_SIG SIGTSTP sample_proc)) \<and>
   trace (handle_SIG SIGTSTP (handle_SIG SIGTSTP sample_proc)) =
     [Write 1 ''Entering foreground-only mode (& is now ignored) \<newline>'', Fflush,
      Write 1 ''Exiting foreground-only mode \<newline>'', Fflush] \<and>
   stop_background (handle_SIG SIGTSTP (handle_SIG SIGTSTP sample_proc)) =
     stop_background sample_proc"
  using handle_SIG_toggle [of sample_proc SIGTSTP SIGTSTP sample_info "fdtab sample_proc" "[]"]
        handle_SIG_toggle [of "handle_SIG SIGTSTP sample_proc" SIGTSTP SIGTSTP sample_info
                              "fdtab sample_proc" "[]"]
  by (simp add: sample_proc_def foreground_only_def)

end
